theory Spec2Isabelle
  imports Main "HOL-Library.Sublist" "HOL-Library.State_Monad"
begin

section \<open>The renderer of the board game (ui/renderer.py)\<close>

text \<open>
  The class \<^verbatim>\<open>Renderer\<close> draws the board, the player tokens and the status panel on
  a pygame surface. Its three drawing methods are embedded as functions that return the
  sequence of drawing calls they make on \<^verbatim>\<open>self.screen\<close>, together with the
  value they return or the exception they raise. The collaborators (board, cell, player,
  animation manager, game logic, configuration, constants) are defined outside the
  module; what the renderer reads from them is a field of a record here.
\<close>

subsection \<open>Python values\<close>

text \<open>
  A Python \<^verbatim>\<open>str\<close> is a sequence of Unicode code points. The literals of the
  module that are not ASCII are given by their code points.
\<close>

type_synonym pystr = "nat list"

definition ascii :: "string \<Rightarrow> pystr" where
  "ascii s = map of_char s"

text \<open>\<^verbatim>\<open>str(n)\<close> and the \<^verbatim>\<open>{n}\<close> of an f-string, for an integer: decimal digits.\<close>

fun str_nat :: "nat \<Rightarrow> pystr" where
  "str_nat n = (if n < 10 then [48 + n] else str_nat (n div 10) @ [48 + n mod 10])"

declare str_nat.simps [simp del]

definition str_int :: "int \<Rightarrow> pystr" where
  "str_int k = (if k < 0 then ascii ''-'' @ str_nat (nat (- k)) else str_nat (nat k))"

datatype py_error = IndexError | TypeError

text \<open>
  \<^verbatim>\<open>xs[k]\<close> on a list: an index that is \<^verbatim>\<open>None\<close> raises TypeError, a negative
  index counts from the end, and an index outside the list raises IndexError.
\<close>

definition subscript :: "'a list \<Rightarrow> int option \<Rightarrow> py_error + 'a" where
  "subscript xs k =
     (case k of
        None \<Rightarrow> Inl TypeError
      | Some i \<Rightarrow>
          (if 0 \<le> i \<and> i < int (length xs) then Inr (xs ! nat i)
           else if - int (length xs) \<le> i \<and> i < 0 then Inr (xs ! nat (int (length xs) + i))
           else Inl IndexError))"

subsection \<open>The surface\<close>

type_synonym color = "nat \<times> nat \<times> nat"

text \<open>A rectangle is (left, top, width, height), as the argument of \<^verbatim>\<open>pygame.Rect\<close>.\<close>

type_synonym rect = "int \<times> int \<times> int \<times> int"

text \<open>\<^verbatim>\<open>Rect.center\<close>, for the non-negative sizes the module uses.\<close>

fun rect_center :: "rect \<Rightarrow> int \<times> int" where
  "rect_center (l, t, w, h) = (l + w div 2, t + h div 2)"

text \<open>
  Where a rendered text is put: \<^verbatim>\<open>blit(text, (x, y))\<close> gives its top left corner,
  \<^verbatim>\<open>blit(text, text.get_rect(center=(x, y)))\<close> its centre.
\<close>

datatype dest = TopLeft int int | Centered int int

text \<open>
  The drawing calls made on the surface:
  \<^item> \<open>Fill c\<close> is \<^verbatim>\<open>screen.fill(c)\<close>;
  \<^item> \<open>DrawRect c r w\<close> is \<^verbatim>\<open>pygame.draw.rect(screen, c, r, w)\<close>, width 0 (the default) filling;
  \<^item> \<open>DrawCircle c p r w\<close> is \<^verbatim>\<open>pygame.draw.circle(screen, c, p, r, w)\<close>, width 0 filling;
  \<^item> \<open>Blit t c d\<close> is \<^verbatim>\<open>screen.blit(self.font.render(t, True, c), d)\<close>.
\<close>

datatype draw_cmd =
    Fill color
  | DrawRect color rect nat
  | DrawCircle color "int \<times> int" nat nat
  | Blit pystr color dest

subsection \<open>The constants of models.constants\<close>

text \<open>
  The module imports its colours and sizes from \<^verbatim>\<open>models.constants\<close>, whose values are
  not part of the sources: they are parameters of every function. \<^verbatim>\<open>HOME_COLORS\<close> is
  the table of colours subscripted by the owner of a home cell, a list.
\<close>

record constants =
  WHITE :: color
  BLACK :: color
  RED :: color
  GREEN :: color
  GRAY :: color
  LIGHT_BLUE :: color
  GOLD :: color
  HOME_COLORS :: "color list"
  CELL_SIZE :: int
  WINDOW_WIDTH :: int
  WINDOW_HEIGHT :: int
  REWARD_COLOR :: color
  DISCARD_COLOR :: color

subsection \<open>The snapshots read by the renderer\<close>

text \<open>
  A cell: the results of its three role predicates and its \<^verbatim>\<open>owner\<close> attribute
  (\<open>None\<close> is Python's \<^verbatim>\<open>None\<close>).
\<close>

record cell =
  is_home_cell :: bool
  is_reward_cell :: bool
  is_penalty_cell :: bool
  owner :: "int option"

text \<open>
  A board: the list \<^verbatim>\<open>cell_positions\<close> of pixel positions and the two lookups
  \<^verbatim>\<open>get_cell(i)\<close> and \<^verbatim>\<open>get_cell_position(k)\<close>.
\<close>

record board =
  cell_positions :: "(int \<times> int) list"
  get_cell :: "nat \<Rightarrow> cell"
  get_cell_position :: "int \<Rightarrow> int \<times> int"

text \<open>
  A player. \<open>name\<close> is \<open>None\<close> when the object has no attribute \<^verbatim>\<open>name\<close>;
  \<open>player_type_name\<close> is what \<^verbatim>\<open>get_player_type_name()\<close> returns.
\<close>

record player =
  player_id :: int
  money :: int
  color :: color
  is_ai :: bool
  name :: "pystr option"
  position :: int
  player_type_name :: pystr

text \<open>
  The animation manager: \<open>moving_player_id\<close> is an index or Python's \<^verbatim>\<open>None\<close>.
\<close>

record animation_manager =
  player_moving :: bool
  moving_player_id :: "int option"
  get_animated_player_position :: "nat \<Rightarrow> board \<Rightarrow> int \<times> int"

text \<open>
  The game logic. \<open>get_current_player\<close> and \<open>is_game_over\<close> are the results of the
  methods of these names. A networked game logic has the method
  \<^verbatim>\<open>is_local_player_turn\<close> and the attribute \<^verbatim>\<open>player_slot\<close>; the outer \<open>None\<close>
  of these fields says that \<^verbatim>\<open>hasattr\<close> finds nothing, and the inner option of
  \<open>player_slot\<close> is a slot that may be Python's \<^verbatim>\<open>None\<close>.
\<close>

record game_logic =
  players :: "player list"
  current_player :: int
  dice_result :: int
  effect_dice_result :: int
  message :: pystr
  waiting_for_effect_dice :: bool
  get_current_player :: player
  is_game_over :: bool
  is_local_player_turn :: "bool option"
  player_slot :: "int option option"

subsection \<open>draw_board\<close>

definition s_reward :: pystr where
  "s_reward = [0x5956, 0x52B1]"

definition s_discard :: pystr where
  "s_discard = [0x4E22, 0x5F03]"

definition s_plain :: pystr where
  "s_plain = [0x666E, 0x901A]"

text \<open>Lines 55 to 62: the fill colour of a cell.\<close>

definition cell_color :: "constants \<Rightarrow> cell \<Rightarrow> py_error + color" where
  "cell_color K c =
     (if is_home_cell c then subscript (HOME_COLORS K) (owner c)
      else if is_reward_cell c then Inr (REWARD_COLOR K)
      else if is_penalty_cell c then Inr (DISCARD_COLOR K)
      else Inr (GRAY K))"

text \<open>Lines 76 to 83: the type label of a cell; \<^verbatim>\<open>None + 1\<close> raises TypeError.\<close>

definition cell_type_text :: "cell \<Rightarrow> py_error + pystr" where
  "cell_type_text c =
     (if is_home_cell c then
        (case owner c of
           None \<Rightarrow> Inl TypeError
         | Some k \<Rightarrow> Inr (ascii ''H'' @ str_int (k + 1)))
      else if is_reward_cell c then Inr s_reward
      else if is_penalty_cell c then Inr s_discard
      else Inr s_plain)"

text \<open>The square of a cell at \<open>(x, y)\<close>, lines 66 and 68.\<close>

definition cell_rect :: "constants \<Rightarrow> int \<times> int \<Rightarrow> rect" where
  "cell_rect K p =
     (fst p - CELL_SIZE K div 2, snd p - CELL_SIZE K div 2, CELL_SIZE K, CELL_SIZE K)"

text \<open>
  The body of the loop, lines 52 to 87, for the cell of index \<open>i\<close> at \<open>(x, y)\<close>: the calls
  made, and the exception that stopped it, if any.
\<close>

definition draw_cell ::
  "constants \<Rightarrow> nat \<Rightarrow> int \<times> int \<Rightarrow> cell \<Rightarrow> draw_cmd list \<times> py_error option" where
  "draw_cell K i p c =
     (case cell_color K c of
        Inl e \<Rightarrow> ([], Some e)
      | Inr col \<Rightarrow>
          (let drawn = [DrawRect col (cell_rect K p) 0,
                        DrawRect (BLACK K) (cell_rect K p) 2,
                        Blit (str_nat i) (BLACK K) (Centered (fst p) (snd p - 20))]
           in case cell_type_text c of
                Inl e \<Rightarrow> (drawn, Some e)
              | Inr type_text \<Rightarrow>
                  (drawn @ [Blit type_text (BLACK K) (Centered (fst p) (snd p + 10))], None)))"

text \<open>The loop over \<^verbatim>\<open>enumerate(board.cell_positions)\<close>, from index \<open>i\<close> on.\<close>

fun draw_cells ::
  "constants \<Rightarrow> board \<Rightarrow> nat \<Rightarrow> (int \<times> int) list \<Rightarrow> draw_cmd list \<times> py_error option" where
  "draw_cells K b i [] = ([], None)"
| "draw_cells K b i (p # ps) =
     (case draw_cell K i p (get_cell b i) of
        (cs, Some e) \<Rightarrow> (cs, Some e)
      | (cs, None) \<Rightarrow>
          (case draw_cells K b (Suc i) ps of (cs', r) \<Rightarrow> (cs @ cs', r)))"

definition draw_board :: "constants \<Rightarrow> board \<Rightarrow> draw_cmd list \<times> py_error option" where
  "draw_board K b =
     (case draw_cells K b 0 (cell_positions b) of (cs, r) \<Rightarrow> (Fill (WHITE K) # cs, r))"

subsection \<open>draw_players\<close>

text \<open>
  Lines 100 to 103: where player \<open>i\<close> of the list is on the screen, before the offset.
  \<^verbatim>\<open>moving_player_id == i\<close> compares with the index of the loop.
\<close>

definition is_moving :: "animation_manager \<Rightarrow> nat \<Rightarrow> bool" where
  "is_moving am i = (player_moving am \<and> moving_player_id am = Some (int i))"

definition player_pos :: "board \<Rightarrow> animation_manager \<Rightarrow> nat \<Rightarrow> player \<Rightarrow> int \<times> int" where
  "player_pos b am i p =
     (if is_moving am i then get_animated_player_position am i b
      else get_cell_position b (position p))"

text \<open>Lines 106 and 107: \<^verbatim>\<open>(i % 2) * 15 - 7\<close> and \<^verbatim>\<open>(i // 2) * 15 - 7\<close>.\<close>

definition player_offset :: "nat \<Rightarrow> int \<times> int" where
  "player_offset i = ((int i mod 2) * 15 - 7, (int i div 2) * 15 - 7)"

definition token_center :: "board \<Rightarrow> animation_manager \<Rightarrow> nat \<Rightarrow> player \<Rightarrow> int \<times> int" where
  "token_center b am i p =
     (fst (player_pos b am i p) + fst (player_offset i),
      snd (player_pos b am i p) + snd (player_offset i))"

text \<open>The body of the loop, lines 100 to 118.\<close>

definition draw_player ::
  "constants \<Rightarrow> board \<Rightarrow> animation_manager \<Rightarrow> nat \<Rightarrow> player \<Rightarrow> draw_cmd list" where
  "draw_player K b am i p =
     (if is_moving am i then [DrawCircle (GOLD K) (token_center b am i p) 12 2] else [])
     @ [DrawCircle (color p) (token_center b am i p) 8 0,
        DrawCircle (BLACK K) (token_center b am i p) 8 2]"

text \<open>The loop over \<^verbatim>\<open>enumerate(players)\<close>, from index \<open>i\<close> on.\<close>

fun draw_players_from ::
  "constants \<Rightarrow> board \<Rightarrow> animation_manager \<Rightarrow> nat \<Rightarrow> player list \<Rightarrow> draw_cmd list" where
  "draw_players_from K b am i [] = []"
| "draw_players_from K b am i (p # ps) =
     draw_player K b am i p @ draw_players_from K b am (Suc i) ps"

definition draw_players ::
  "constants \<Rightarrow> player list \<Rightarrow> board \<Rightarrow> animation_manager \<Rightarrow> draw_cmd list" where
  "draw_players K ps b am = draw_players_from K b am 0 ps"

subsection \<open>draw_ui\<close>

definition s_player :: pystr where
  "s_player = [0x73A9, 0x5BB6]"

definition s_coins :: pystr where
  "s_coins = [0x91D1, 0x5E01]"

definition s_you :: pystr where
  "s_you = [0x5B, 0x4F60, 0x5D, 0x20]"

definition s_move_dice :: pystr where
  "s_move_dice = [0x79FB, 0x52A8, 0x9AB0, 0x5B50, 0x70B9, 0x6570, 0x3A, 0x20]"

definition s_effect_dice :: pystr where
  "s_effect_dice = [0x6548, 0x679C, 0x9AB0, 0x5B50, 0x70B9, 0x6570, 0x3A, 0x20]"

definition s_wait :: pystr where
  "s_wait = [0x7B49, 0x5F85, 0x20]"

definition s_roll_effect :: pystr where
  "s_roll_effect = [0x20, 0x6295, 0x63B7, 0x6548, 0x679C, 0x9AB0, 0x5B50, 0x2E, 0x2E, 0x2E]"

definition s_turn :: pystr where
  "s_turn = [0x20, 0x7684, 0x56DE, 0x5408]"

definition s_restart :: pystr where
  "s_restart = [0x91CD, 0x65B0, 0x5F00, 0x59CB]"

definition s_roll :: pystr where
  "s_roll = [0x6295, 0x9AB0, 0x5B50]"

text \<open>
  \<^verbatim>\<open>hasattr(game_logic, 'is_local_player_turn')\<close>, lines 136, 194 and 224.
\<close>

definition is_network_game :: "game_logic \<Rightarrow> bool" where
  "is_network_game gl = (is_local_player_turn gl \<noteq> None)"

text \<open>
  The name shown for a human player, lines 141 to 146 and 196 to 201: the stored name
  when the game is networked, the player has a name and it is not the configured
  nickname \<open>nick\<close> (\<^verbatim>\<open>config_manager.get_nickname()\<close>); the nickname otherwise.
\<close>

definition shown_name :: "pystr \<Rightarrow> game_logic \<Rightarrow> player \<Rightarrow> pystr" where
  "shown_name nick gl p =
     (case name p of
        Some n \<Rightarrow> (if is_network_game gl \<and> n \<noteq> nick then n else nick)
      | None \<Rightarrow> nick)"

text \<open>Lines 138 to 149: the text of the line of player \<open>i\<close>.\<close>

definition player_text :: "pystr \<Rightarrow> game_logic \<Rightarrow> nat \<Rightarrow> player \<Rightarrow> pystr" where
  "player_text nick gl i p =
     (if \<not> is_ai p then
        s_player @ str_int (int i + 1) @ ascii ''('' @ shown_name nick gl p @ ascii ''): ''
          @ str_int (money p) @ s_coins
      else
        player_type_name p @ str_int (int i + 1) @ ascii '': '' @ str_int (money p) @ s_coins)"

text \<open>Lines 152 to 158: whether the line of player \<open>i\<close> is marked as the local player.\<close>

definition is_local_player :: "game_logic \<Rightarrow> nat \<Rightarrow> player \<Rightarrow> bool" where
  "is_local_player gl i p =
     (if is_local_player_turn gl \<noteq> None \<and> player_slot gl \<noteq> None
      then player_slot gl = Some (Some (int i))
      else \<not> is_ai p)"

text \<open>Lines 160 to 164: the two marks put around the text.\<close>

definition mark_text :: "game_logic \<Rightarrow> nat \<Rightarrow> player \<Rightarrow> pystr \<Rightarrow> pystr" where
  "mark_text gl i p t =
     (let t1 = (if is_local_player gl i p then s_you @ t else t)
      in if int i = current_player gl then ascii ''>>> '' @ t1 @ ascii '' <<<'' else t1)"

text \<open>The body of the loop, lines 133 to 168, at the height \<open>y_offset\<close>.\<close>

definition draw_player_line ::
  "constants \<Rightarrow> pystr \<Rightarrow> game_logic \<Rightarrow> nat \<Rightarrow> player \<Rightarrow> int \<Rightarrow> draw_cmd" where
  "draw_player_line K nick gl i p y_offset =
     Blit (mark_text gl i p (player_text nick gl i p))
          (if int i \<noteq> current_player gl then BLACK K else RED K)
          (TopLeft 10 y_offset)"

text \<open>
  The loop over \<^verbatim>\<open>enumerate(game_logic.players)\<close>, from index \<open>i\<close> and height
  \<open>y_offset\<close> on: the calls made and the height after the last line.
\<close>

fun draw_player_lines ::
  "constants \<Rightarrow> pystr \<Rightarrow> game_logic \<Rightarrow> nat \<Rightarrow> int \<Rightarrow> player list \<Rightarrow> draw_cmd list \<times> int" where
  "draw_player_lines K nick gl i y_offset [] = ([], y_offset)"
| "draw_player_lines K nick gl i y_offset (p # ps) =
     (case draw_player_lines K nick gl (Suc i) (y_offset + 30) ps of
        (cs, y) \<Rightarrow> (draw_player_line K nick gl i p y_offset # cs, y))"

text \<open>Lines 172 to 185: the two dice results and the message.\<close>

definition draw_dice_and_message :: "constants \<Rightarrow> game_logic \<Rightarrow> int \<Rightarrow> draw_cmd list" where
  "draw_dice_and_message K gl y_offset =
     (let (cs1, y1) =
            (if dice_result gl > 0
             then ([Blit (s_move_dice @ str_int (dice_result gl)) (BLACK K)
                      (TopLeft 10 (y_offset + 20))], y_offset + 25)
             else ([], y_offset));
          cs2 =
            (if effect_dice_result gl > 0
             then [Blit (s_effect_dice @ str_int (effect_dice_result gl)) (BLACK K)
                     (TopLeft 10 (y1 + 20))]
             else [])
      in cs1 @ cs2 @ [Blit (message gl) (BLACK K) (TopLeft 10 (WINDOW_HEIGHT K - 80))])"

text \<open>Lines 188 to 204: the name of the current player in the status line.\<close>

definition current_player_name :: "pystr \<Rightarrow> game_logic \<Rightarrow> pystr" where
  "current_player_name nick gl =
     (let cp = get_current_player gl
      in if \<not> is_ai cp then
           s_player @ str_int (player_id cp + 1) @ ascii ''('' @ shown_name nick gl cp @ ascii '')''
         else player_type_name cp @ str_int (player_id cp + 1))"

text \<open>Lines 206 to 217: the status line.\<close>

definition draw_status :: "constants \<Rightarrow> pystr \<Rightarrow> game_logic \<Rightarrow> draw_cmd" where
  "draw_status K nick gl =
     (if waiting_for_effect_dice gl
      then Blit (s_wait @ current_player_name nick gl @ s_roll_effect) (GOLD K)
             (Centered (WINDOW_WIDTH K div 2) (WINDOW_HEIGHT K - 40))
      else Blit (current_player_name nick gl @ s_turn) (BLACK K)
             (Centered (WINDOW_WIDTH K div 2) (WINDOW_HEIGHT K - 40)))"

text \<open>Lines 221 to 229: whether the viewer may act.\<close>

definition should_show_button :: "game_logic \<Rightarrow> bool" where
  "should_show_button gl =
     (case is_local_player_turn gl of
        Some local_turn \<Rightarrow> local_turn
      | None \<Rightarrow> \<not> is_ai (get_current_player gl))"

text \<open>\<^verbatim>\<open>pygame.Rect(WINDOW_WIDTH - 150, WINDOW_HEIGHT - 60, 120, 40)\<close>\<close>

definition button_rect :: "constants \<Rightarrow> rect" where
  "button_rect K = (WINDOW_WIDTH K - 150, WINDOW_HEIGHT K - 60, 120, 40)"

text \<open>
  What every branch of lines 231 to 263 does with its own fill colour and label: the
  rectangle is filled, outlined and labelled at its centre, and returned.
\<close>

definition draw_button :: "constants \<Rightarrow> color \<Rightarrow> pystr \<Rightarrow> draw_cmd list \<times> rect option" where
  "draw_button K fill label =
     ([DrawRect fill (button_rect K) 0,
       DrawRect (BLACK K) (button_rect K) 2,
       Blit label (BLACK K)
         (Centered (fst (rect_center (button_rect K))) (snd (rect_center (button_rect K))))],
      Some (button_rect K))"

text \<open>Lines 221 to 265: the button.\<close>

definition draw_action_button :: "constants \<Rightarrow> game_logic \<Rightarrow> draw_cmd list \<times> rect option" where
  "draw_action_button K gl =
     (if is_game_over gl then draw_button K (GREEN K) s_restart
      else if waiting_for_effect_dice gl \<and> should_show_button gl
        then draw_button K (GOLD K) s_roll
      else if should_show_button gl then draw_button K (LIGHT_BLUE K) s_roll
      else ([], None))"

text \<open>Lines 131 to 217: everything drawn before the button.\<close>

definition draw_panel :: "constants \<Rightarrow> pystr \<Rightarrow> game_logic \<Rightarrow> draw_cmd list" where
  "draw_panel K nick gl =
     (case draw_player_lines K nick gl 0 10 (players gl) of
        (lines, y_offset) \<Rightarrow>
          lines @ draw_dice_and_message K gl y_offset @ [draw_status K nick gl])"

text \<open>The method: the calls made on the surface and the value returned.\<close>

definition draw_ui :: "constants \<Rightarrow> pystr \<Rightarrow> game_logic \<Rightarrow> draw_cmd list \<times> rect option" where
  "draw_ui K nick gl =
     (case draw_action_button K gl of
        (button, r) \<Rightarrow> (draw_panel K nick gl @ button, r))"

subsection \<open>The methods as programs on a state\<close>

text \<open>
  The state around a call: the surface and the four objects the methods are given. A
  program takes a state and returns a result and the state after it.
\<close>

record world =
  screen :: "draw_cmd list"
  the_board :: board
  the_players :: "player list"
  the_animation :: animation_manager
  the_game_logic :: game_logic

type_synonym 'a prog = "(world, 'a) state"

text \<open>
  The two things a statement of the module does to the state: a drawing call adds to the
  surface, and reading an attribute (or testing it with \<^verbatim>\<open>hasattr\<close>) changes nothing.
\<close>

definition draw :: "draw_cmd \<Rightarrow> unit prog" where
  "draw c = State (\<lambda>w. ((), w\<lparr>screen := screen w @ [c]\<rparr>))"

definition attr :: "(world \<Rightarrow> 'a) \<Rightarrow> 'a prog" where
  "attr f = State (\<lambda>w. (f w, w))"

text \<open>
  The methods the module calls on its arguments and on the configuration. Their bodies are
  outside the module, and a method of an object may assign to it: each is a program on the
  state, a parameter of the programs below. A method of a cell or of a player takes this
  cell or player.
\<close>

record collaborators =
  m_get_cell :: "nat \<Rightarrow> cell prog"
  m_is_home_cell :: "cell \<Rightarrow> bool prog"
  m_is_reward_cell :: "cell \<Rightarrow> bool prog"
  m_is_penalty_cell :: "cell \<Rightarrow> bool prog"
  m_get_cell_position :: "int \<Rightarrow> (int \<times> int) prog"
  m_get_animated_player_position :: "nat \<Rightarrow> (int \<times> int) prog"
  m_get_player_type_name :: "player \<Rightarrow> pystr prog"
  m_get_current_player :: "player prog"
  m_is_local_player_turn :: "bool prog"
  m_is_game_over :: "bool prog"
  m_get_nickname :: "pystr prog"

text \<open>
  \<^verbatim>\<open>draw_board\<close>, statement by statement: lines 55 to 62, lines 76 to 83, the body of the
  loop (lines 52 to 87), the loop, and the method. The result is the exception raised, if
  any.
\<close>

definition cell_color_prog ::
  "constants \<Rightarrow> collaborators \<Rightarrow> cell \<Rightarrow> (py_error + color) prog" where
  "cell_color_prog K M c = do {
     home \<leftarrow> m_is_home_cell M c;
     if home then State_Monad.return (subscript (HOME_COLORS K) (owner c))
     else do {
       reward \<leftarrow> m_is_reward_cell M c;
       if reward then State_Monad.return (Inr (REWARD_COLOR K))
       else do {
         penalty \<leftarrow> m_is_penalty_cell M c;
         State_Monad.return (Inr (if penalty then DISCARD_COLOR K else GRAY K))
       }
     }
   }"

definition cell_type_text_prog :: "collaborators \<Rightarrow> cell \<Rightarrow> (py_error + pystr) prog" where
  "cell_type_text_prog M c = do {
     home \<leftarrow> m_is_home_cell M c;
     if home then
       State_Monad.return
         (case owner c of
            None \<Rightarrow> Inl TypeError
          | Some k \<Rightarrow> Inr (ascii ''H'' @ str_int (k + 1)))
     else do {
       reward \<leftarrow> m_is_reward_cell M c;
       if reward then State_Monad.return (Inr s_reward)
       else do {
         penalty \<leftarrow> m_is_penalty_cell M c;
         State_Monad.return (Inr (if penalty then s_discard else s_plain))
       }
     }
   }"

definition draw_cell_prog ::
  "constants \<Rightarrow> collaborators \<Rightarrow> nat \<Rightarrow> int \<times> int \<Rightarrow> py_error option prog" where
  "draw_cell_prog K M i p = do {
     c \<leftarrow> m_get_cell M i;
     color \<leftarrow> cell_color_prog K M c;
     case color of
       Inl e \<Rightarrow> State_Monad.return (Some e)
     | Inr col \<Rightarrow> do {
         draw (DrawRect col (cell_rect K p) 0);
         draw (DrawRect (BLACK K) (cell_rect K p) 2);
         draw (Blit (str_nat i) (BLACK K) (Centered (fst p) (snd p - 20)));
         type_text \<leftarrow> cell_type_text_prog M c;
         case type_text of
           Inl e \<Rightarrow> State_Monad.return (Some e)
         | Inr t \<Rightarrow> do {
             draw (Blit t (BLACK K) (Centered (fst p) (snd p + 10)));
             State_Monad.return None
           }
       }
   }"

fun draw_cells_prog ::
  "constants \<Rightarrow> collaborators \<Rightarrow> nat \<Rightarrow> (int \<times> int) list \<Rightarrow> py_error option prog" where
  "draw_cells_prog K M i [] = State_Monad.return None"
| "draw_cells_prog K M i (p # ps) = do {
     r \<leftarrow> draw_cell_prog K M i p;
     case r of
       Some e \<Rightarrow> State_Monad.return (Some e)
     | None \<Rightarrow> draw_cells_prog K M (Suc i) ps
   }"

definition draw_board_prog :: "constants \<Rightarrow> collaborators \<Rightarrow> py_error option prog" where
  "draw_board_prog K M = do {
     draw (Fill (WHITE K));
     positions \<leftarrow> attr (\<lambda>w. cell_positions (the_board w));
     draw_cells_prog K M 0 positions
   }"

text \<open>
  \<^verbatim>\<open>draw_players\<close>: the body of the loop (lines 100 to 118, the test of line 100 is made
  again at line 110), the loop, and the method.
\<close>

definition draw_player_prog ::
  "constants \<Rightarrow> collaborators \<Rightarrow> nat \<Rightarrow> player \<Rightarrow> unit prog" where
  "draw_player_prog K M i p = do {
     moving \<leftarrow> attr (\<lambda>w. is_moving (the_animation w) i);
     pos \<leftarrow> (if moving then m_get_animated_player_position M i
             else m_get_cell_position M (position p));
     let center = (fst pos + fst (player_offset i), snd pos + snd (player_offset i));
     glow \<leftarrow> attr (\<lambda>w. is_moving (the_animation w) i);
     (if glow then draw (DrawCircle (GOLD K) center 12 2) else State_Monad.return ());
     draw (DrawCircle (color p) center 8 0);
     draw (DrawCircle (BLACK K) center 8 2)
   }"

fun draw_players_from_prog ::
  "constants \<Rightarrow> collaborators \<Rightarrow> nat \<Rightarrow> player list \<Rightarrow> unit prog" where
  "draw_players_from_prog K M i [] = State_Monad.return ()"
| "draw_players_from_prog K M i (p # ps) = do {
     draw_player_prog K M i p;
     draw_players_from_prog K M (Suc i) ps
   }"

definition draw_players_prog :: "constants \<Rightarrow> collaborators \<Rightarrow> unit prog" where
  "draw_players_prog K M = do {
     ps \<leftarrow> attr the_players;
     draw_players_from_prog K M 0 ps
   }"

text \<open>
  \<^verbatim>\<open>draw_ui\<close>. The name shown for a human player (lines 141 to 146 and 196 to 201):
  \<^verbatim>\<open>get_nickname()\<close> is called in the test when the game is networked and the player has
  a name, and again where the nickname is shown.
\<close>

definition shown_name_prog :: "collaborators \<Rightarrow> bool \<Rightarrow> player \<Rightarrow> pystr prog" where
  "shown_name_prog M network p =
     (case name p of
        Some n \<Rightarrow>
          if network then do {
            nick \<leftarrow> m_get_nickname M;
            if n \<noteq> nick then State_Monad.return n else m_get_nickname M
          }
          else m_get_nickname M
      | None \<Rightarrow> m_get_nickname M)"

text \<open>The body of the loop of the player lines (lines 133 to 168), and the loop.\<close>

definition draw_player_line_prog ::
  "constants \<Rightarrow> collaborators \<Rightarrow> nat \<Rightarrow> player \<Rightarrow> int \<Rightarrow> unit prog" where
  "draw_player_line_prog K M i p y_offset = do {
     player_type \<leftarrow> m_get_player_type_name M p;
     network \<leftarrow> attr (\<lambda>w. is_network_game (the_game_logic w));
     text \<leftarrow>
       (if \<not> is_ai p then do {
          shown \<leftarrow> shown_name_prog M network p;
          State_Monad.return
            (s_player @ str_int (int i + 1) @ ascii ''('' @ shown @ ascii ''): ''
               @ str_int (money p) @ s_coins)
        }
        else State_Monad.return
          (player_type @ str_int (int i + 1) @ ascii '': '' @ str_int (money p) @ s_coins));
     marked \<leftarrow> attr (\<lambda>w. mark_text (the_game_logic w) i p text);
     current \<leftarrow> attr (\<lambda>w. current_player (the_game_logic w));
     draw (Blit marked (if int i \<noteq> current then BLACK K else RED K) (TopLeft 10 y_offset))
   }"

fun draw_player_lines_prog ::
  "constants \<Rightarrow> collaborators \<Rightarrow> nat \<Rightarrow> int \<Rightarrow> player list \<Rightarrow> int prog" where
  "draw_player_lines_prog K M i y_offset [] = State_Monad.return y_offset"
| "draw_player_lines_prog K M i y_offset (p # ps) = do {
     draw_player_line_prog K M i p y_offset;
     draw_player_lines_prog K M (Suc i) (y_offset + 30) ps
   }"

text \<open>Lines 172 to 185, lines 191 to 204, lines 206 to 217 and lines 221 to 265.\<close>

definition draw_dice_and_message_prog :: "constants \<Rightarrow> int \<Rightarrow> unit prog" where
  "draw_dice_and_message_prog K y_offset = do {
     dice \<leftarrow> attr (\<lambda>w. dice_result (the_game_logic w));
     y1 \<leftarrow>
       (if dice > 0 then do {
          draw (Blit (s_move_dice @ str_int dice) (BLACK K) (TopLeft 10 (y_offset + 20)));
          State_Monad.return (y_offset + 25)
        }
        else State_Monad.return y_offset);
     effect \<leftarrow> attr (\<lambda>w. effect_dice_result (the_game_logic w));
     (if effect > 0
      then draw (Blit (s_effect_dice @ str_int effect) (BLACK K) (TopLeft 10 (y1 + 20)))
      else State_Monad.return ());
     msg \<leftarrow> attr (\<lambda>w. message (the_game_logic w));
     draw (Blit msg (BLACK K) (TopLeft 10 (WINDOW_HEIGHT K - 80)))
   }"

definition current_player_name_prog :: "collaborators \<Rightarrow> player \<Rightarrow> pystr prog" where
  "current_player_name_prog M cp =
     (if \<not> is_ai cp then do {
        network \<leftarrow> attr (\<lambda>w. is_network_game (the_game_logic w));
        shown \<leftarrow> shown_name_prog M network cp;
        State_Monad.return
          (s_player @ str_int (player_id cp + 1) @ ascii ''('' @ shown @ ascii '')'')
      }
      else do {
        player_type \<leftarrow> m_get_player_type_name M cp;
        State_Monad.return (player_type @ str_int (player_id cp + 1))
      })"

definition draw_status_prog :: "constants \<Rightarrow> pystr \<Rightarrow> unit prog" where
  "draw_status_prog K current_name = do {
     waiting \<leftarrow> attr (\<lambda>w. waiting_for_effect_dice (the_game_logic w));
     if waiting
     then draw (Blit (s_wait @ current_name @ s_roll_effect) (GOLD K)
                  (Centered (WINDOW_WIDTH K div 2) (WINDOW_HEIGHT K - 40)))
     else draw (Blit (current_name @ s_turn) (BLACK K)
                  (Centered (WINDOW_WIDTH K div 2) (WINDOW_HEIGHT K - 40)))
   }"

definition draw_button_prog :: "constants \<Rightarrow> color \<Rightarrow> pystr \<Rightarrow> rect option prog" where
  "draw_button_prog K fill label = do {
     draw (DrawRect fill (button_rect K) 0);
     draw (DrawRect (BLACK K) (button_rect K) 2);
     draw (Blit label (BLACK K)
             (Centered (fst (rect_center (button_rect K))) (snd (rect_center (button_rect K)))));
     State_Monad.return (Some (button_rect K))
   }"

definition draw_action_button_prog ::
  "constants \<Rightarrow> collaborators \<Rightarrow> player \<Rightarrow> rect option prog" where
  "draw_action_button_prog K M cp = do {
     networked \<leftarrow> attr (\<lambda>w. is_local_player_turn (the_game_logic w) \<noteq> None);
     show_button \<leftarrow>
       (if networked then m_is_local_player_turn M else State_Monad.return (\<not> is_ai cp));
     over \<leftarrow> m_is_game_over M;
     if over then draw_button_prog K (GREEN K) s_restart
     else do {
       waiting \<leftarrow> attr (\<lambda>w. waiting_for_effect_dice (the_game_logic w));
       if waiting \<and> show_button then draw_button_prog K (GOLD K) s_roll
       else if show_button then draw_button_prog K (LIGHT_BLUE K) s_roll
       else State_Monad.return None
     }
   }"

text \<open>The method; its result is the rectangle returned.\<close>

definition draw_ui_prog :: "constants \<Rightarrow> collaborators \<Rightarrow> rect option prog" where
  "draw_ui_prog K M = do {
     ps \<leftarrow> attr (\<lambda>w. players (the_game_logic w));
     y_offset \<leftarrow> draw_player_lines_prog K M 0 10 ps;
     draw_dice_and_message_prog K y_offset;
     cp \<leftarrow> m_get_current_player M;
     current_name \<leftarrow> current_player_name_prog M cp;
     draw_status_prog K current_name;
     draw_action_button_prog K M cp
   }"

text \<open>
  A program that leaves the state as it is, and the methods that all do; a program that
  changes nothing but the surface, and the surface only by drawing after what is on it.
\<close>

definition observer :: "'a prog \<Rightarrow> bool" where
  "observer m = (\<forall>w. snd (run_state m w) = w)"

definition observers :: "collaborators \<Rightarrow> bool" where
  "observers M =
     ((\<forall>i. observer (m_get_cell M i))
      \<and> (\<forall>c. observer (m_is_home_cell M c))
      \<and> (\<forall>c. observer (m_is_reward_cell M c))
      \<and> (\<forall>c. observer (m_is_penalty_cell M c))
      \<and> (\<forall>k. observer (m_get_cell_position M k))
      \<and> (\<forall>i. observer (m_get_animated_player_position M i))
      \<and> (\<forall>p. observer (m_get_player_type_name M p))
      \<and> observer (m_get_current_player M)
      \<and> observer (m_is_local_player_turn M)
      \<and> observer (m_is_game_over M)
      \<and> observer (m_get_nickname M))"

definition surface_only :: "'a prog \<Rightarrow> bool" where
  "surface_only m = (\<forall>w. \<exists>cs. snd (run_state m w) = w\<lparr>screen := screen w @ cs\<rparr>)"

text \<open>
  The methods that return the fields the snapshots have for them, and change nothing.
\<close>

definition field_methods :: "pystr \<Rightarrow> collaborators" where
  "field_methods nick =
     \<lparr>m_get_cell = (\<lambda>i. attr (\<lambda>w. get_cell (the_board w) i)),
      m_is_home_cell = (\<lambda>c. State_Monad.return (is_home_cell c)),
      m_is_reward_cell = (\<lambda>c. State_Monad.return (is_reward_cell c)),
      m_is_penalty_cell = (\<lambda>c. State_Monad.return (is_penalty_cell c)),
      m_get_cell_position = (\<lambda>k. attr (\<lambda>w. get_cell_position (the_board w) k)),
      m_get_animated_player_position =
        (\<lambda>i. attr (\<lambda>w. get_animated_player_position (the_animation w) i (the_board w))),
      m_get_player_type_name = (\<lambda>p. State_Monad.return (player_type_name p)),
      m_get_current_player = attr (\<lambda>w. get_current_player (the_game_logic w)),
      m_is_local_player_turn =
        attr (\<lambda>w. case is_local_player_turn (the_game_logic w) of
                     Some local_turn \<Rightarrow> local_turn
                   | None \<Rightarrow> False),
      m_is_game_over = attr (\<lambda>w. is_game_over (the_game_logic w)),
      m_get_nickname = State_Monad.return nick\<rparr>"

subsection \<open>The specification's words\<close>

text \<open>
  The action control of the specification: the three buttons, who may act, and the
  priority among them.
\<close>

datatype button = Restart | RollEffectDie | RollDie

definition spec_authorized :: "game_logic \<Rightarrow> bool" where
  "spec_authorized gl =
     (case is_local_player_turn gl of
        Some local_turn \<Rightarrow> local_turn
      | None \<Rightarrow> \<not> is_ai (get_current_player gl))"

definition spec_button :: "game_logic \<Rightarrow> button option" where
  "spec_button gl =
     (if is_game_over gl then Some Restart
      else if waiting_for_effect_dice gl \<and> spec_authorized gl then Some RollEffectDie
      else if spec_authorized gl then Some RollDie
      else None)"

fun button_fill :: "constants \<Rightarrow> button \<Rightarrow> color" where
  "button_fill K Restart = GREEN K"
| "button_fill K RollEffectDie = GOLD K"
| "button_fill K RollDie = LIGHT_BLUE K"

fun button_label :: "button \<Rightarrow> pystr" where
  "button_label Restart = s_restart"
| "button_label RollEffectDie = s_roll"
| "button_label RollDie = s_roll"

text \<open>The region of a button on the screen: its filled rectangle, outline and label.\<close>

definition button_region :: "constants \<Rightarrow> button \<Rightarrow> draw_cmd list" where
  "button_region K b =
     [DrawRect (button_fill K b) (WINDOW_WIDTH K - 150, WINDOW_HEIGHT K - 60, 120, 40) 0,
      DrawRect (BLACK K) (WINDOW_WIDTH K - 150, WINDOW_HEIGHT K - 60, 120, 40) 2,
      Blit (button_label b) (BLACK K) (Centered (WINDOW_WIDTH K - 90) (WINDOW_HEIGHT K - 40))]"

text \<open>
  The name in the line of a human player of a networked session, by the specification:
  the stored name when it differs from the local nickname, the local nickname otherwise.
\<close>

definition spec_label_name :: "pystr \<Rightarrow> pystr option \<Rightarrow> pystr" where
  "spec_label_name nick stored =
     (case stored of
        Some n \<Rightarrow> (if n \<noteq> nick then n else nick)
      | None \<Rightarrow> nick)"

text \<open>
  The position of a player of the specification: the animated one for the moving player
  while a player is moving, the static one of its cell otherwise.
\<close>

definition spec_position :: "board \<Rightarrow> animation_manager \<Rightarrow> nat \<Rightarrow> player \<Rightarrow> int \<times> int" where
  "spec_position b am i p =
     (if player_moving am then
        (if moving_player_id am = Some (int i) then get_animated_player_position am i b
         else get_cell_position b (position p))
      else get_cell_position b (position p))"

text \<open>The centres of the filled circles among drawing calls: the tokens, in order.\<close>

fun filled_circle_centers :: "draw_cmd list \<Rightarrow> (int \<times> int) list" where
  "filled_circle_centers [] = []"
| "filled_circle_centers (DrawCircle c p r w # cs) =
     (if w = 0 then p # filled_circle_centers cs else filled_circle_centers cs)"
| "filled_circle_centers (_ # cs) = filled_circle_centers cs"

text \<open>The index of the first player of a list that is not an AI, counting from \<open>i\<close>.\<close>

fun first_non_ai :: "nat \<Rightarrow> player list \<Rightarrow> nat option" where
  "first_non_ai i [] = None"
| "first_non_ai i (p # ps) = (if is_ai p then first_non_ai (Suc i) ps else Some i)"

text \<open>The owner of a cell is an index of \<^verbatim>\<open>HOME_COLORS\<close>, counted from either end.\<close>

definition owner_indexes :: "constants \<Rightarrow> cell \<Rightarrow> bool" where
  "owner_indexes K c =
     (case owner c of
        None \<Rightarrow> False
      | Some k \<Rightarrow> - int (length (HOME_COLORS K)) \<le> k \<and> k < int (length (HOME_COLORS K)))"

text \<open>The fill colour and the type label of the specification, by role.\<close>

definition spec_fill_color :: "constants \<Rightarrow> cell \<Rightarrow> color" where
  "spec_fill_color K c =
     (if is_home_cell c then
        (case owner c of
           None \<Rightarrow> GRAY K
         | Some k \<Rightarrow>
             HOME_COLORS K ! nat (if k < 0 then int (length (HOME_COLORS K)) + k else k))
      else if is_reward_cell c then REWARD_COLOR K
      else if is_penalty_cell c then DISCARD_COLOR K
      else GRAY K)"

definition spec_type_label :: "cell \<Rightarrow> pystr" where
  "spec_type_label c =
     (if is_home_cell c then
        (case owner c of None \<Rightarrow> s_plain | Some k \<Rightarrow> ascii ''H'' @ str_int (k + 1))
      else if is_reward_cell c then s_reward
      else if is_penalty_cell c then s_discard
      else s_plain)"

text \<open>The render of the cell of index \<open>i\<close> at \<open>p\<close>: square, outline, index and label.\<close>

definition cell_render :: "constants \<Rightarrow> nat \<Rightarrow> int \<times> int \<Rightarrow> cell \<Rightarrow> draw_cmd list" where
  "cell_render K i p c =
     [DrawRect (spec_fill_color K c) (cell_rect K p) 0,
      DrawRect (BLACK K) (cell_rect K p) 2,
      Blit (str_nat i) (BLACK K) (Centered (fst p) (snd p - 20)),
      Blit (spec_type_label c) (BLACK K) (Centered (fst p) (snd p + 10))]"

subsection \<open>Sample values\<close>

text \<open>
  Values for the constants, which the sources do not give, and small snapshots, for
  the concrete instances below.
\<close>

definition sample_constants :: constants where
  "sample_constants =
     \<lparr>WHITE = (255, 255, 255), BLACK = (0, 0, 0), RED = (255, 0, 0), GREEN = (0, 255, 0),
      GRAY = (128, 128, 128), LIGHT_BLUE = (173, 216, 230), GOLD = (255, 215, 0),
      HOME_COLORS = [(255, 0, 0), (0, 0, 255), (0, 255, 0), (255, 255, 0)],
      CELL_SIZE = 60, WINDOW_WIDTH = 800, WINDOW_HEIGHT = 600,
      REWARD_COLOR = (144, 238, 144), DISCARD_COLOR = (255, 182, 193)\<rparr>"

definition human :: "int \<Rightarrow> string \<Rightarrow> int \<Rightarrow> player" where
  "human k nm pos =
     \<lparr>player_id = k, money = 100, color = (255, 0, 0), is_ai = False,
      name = Some (ascii nm), position = pos, player_type_name = s_player\<rparr>"

definition robot :: "int \<Rightarrow> int \<Rightarrow> player" where
  "robot k pos =
     \<lparr>player_id = k, money = 100, color = (0, 0, 255), is_ai = True,
      name = None, position = pos, player_type_name = ascii ''AI''\<rparr>"

definition sample_game ::
  "player list \<Rightarrow> nat \<Rightarrow> bool option \<Rightarrow> int option option \<Rightarrow> game_logic" where
  "sample_game ps cur turn slot =
     \<lparr>players = ps, current_player = int cur, dice_result = 0, effect_dice_result = 0,
      message = [], waiting_for_effect_dice = False, get_current_player = ps ! cur,
      is_game_over = False, is_local_player_turn = turn, player_slot = slot\<rparr>"

definition sample_cell :: "bool \<Rightarrow> bool \<Rightarrow> bool \<Rightarrow> int option \<Rightarrow> cell" where
  "sample_cell h r p k =
     \<lparr>is_home_cell = h, is_reward_cell = r, is_penalty_cell = p, owner = k\<rparr>"

definition sample_board :: "(int \<times> int) list \<Rightarrow> cell \<Rightarrow> board" where
  "sample_board ps c =
     \<lparr>cell_positions = ps, get_cell = (\<lambda>i. c),
      get_cell_position = (\<lambda>k. (100 + 60 * k, 100))\<rparr>"

definition sample_animation :: "bool \<Rightarrow> int option \<Rightarrow> animation_manager" where
  "sample_animation m k =
     \<lparr>player_moving = m, moving_player_id = k,
      get_animated_player_position = (\<lambda>i b. (130, 95))\<rparr>"

definition sample_world :: world where
  "sample_world =
     \<lparr>screen = [],
      the_board = sample_board [(100, 100)] (sample_cell False True False None),
      the_players = [human 0 ''Ann'' 0, robot 1 0],
      the_animation = sample_animation True (Some 1),
      the_game_logic = sample_game [human 0 ''Ann'' 0, robot 1 0] 0 None None\<rparr>"

text \<open>
  Methods of which one assigns: \<^verbatim>\<open>get_cell_position\<close> empties the player list.
\<close>

definition assigning_methods :: collaborators where
  "assigning_methods =
     (field_methods (ascii ''Ann''))
       \<lparr>m_get_cell_position := (\<lambda>k. State (\<lambda>w. ((0, 0), w\<lparr>the_players := []\<rparr>)))\<rparr>"

section \<open>Properties\<close>

subsection \<open>The action button of draw_ui\<close>

lemma draw_action_button_spec:
  "draw_action_button K gl =
     (case spec_button gl of
        None \<Rightarrow> ([], None)
      | Some b \<Rightarrow> (button_region K b, Some (button_rect K)))"
  by (simp add: draw_action_button_def spec_button_def spec_authorized_def
        should_show_button_def draw_button_def button_region_def button_rect_def)

lemma draw_action_button_cases:
  "draw_action_button K gl = ([], None)
   \<or> (\<exists>fill label. draw_action_button K gl = draw_button K fill label)"
  unfolding draw_action_button_def
  by (simp del: split_paired_Ex) blast

text \<open>
  C1: \<open>draw_ui\<close> selects the action button by strict priority. For every game logic, after
  the panel it draws the button the specification selects and returns its rectangle: the
  Restart button when the game is over (whatever \<open>waiting_for_effect_dice\<close> and the
  authorization are); otherwise the Effect-Die button when the game waits for the effect
  die and the viewer is authorized (networked: \<open>is_local_player_turn()\<close>; otherwise: the
  current player is not an AI); otherwise the Roll-Die button when the viewer is
  authorized; otherwise it draws no button and returns \<open>None\<close>.
\<close>

theorem draw_ui_button_priority:
  "draw_ui K nick gl =
     (case spec_button gl of
        None \<Rightarrow> (draw_panel K nick gl, None)
      | Some b \<Rightarrow>
          (draw_panel K nick gl @ button_region K b,
           Some (WINDOW_WIDTH K - 150, WINDOW_HEIGHT K - 60, 120, 40)))"
  by (simp add: draw_ui_def draw_action_button_spec button_rect_def split: option.split)

text \<open>
  The state named by the specification: the game is over and waits for the effect die,
  and the button is Restart.
\<close>

lemma spec_button_game_over_and_waiting:
  "spec_button ((sample_game [human 0 ''Ann'' 0, robot 1 0] 0 None None)
     \<lparr>is_game_over := True, waiting_for_effect_dice := True\<rparr>) = Some Restart"
  by (simp add: spec_button_def sample_game_def)

text \<open>
  C5: \<open>draw_ui\<close> returns no button region when the game is not over,
  \<open>waiting_for_effect_dice\<close> is false, the session is not networked and the current player
  is an AI.
\<close>

theorem draw_ui_no_button_for_ai:
  assumes "\<not> is_game_over gl" and "\<not> waiting_for_effect_dice gl"
    and "is_local_player_turn gl = None" and "is_ai (get_current_player gl)"
  shows "snd (draw_ui K nick gl) = None"
  using assms
  by (simp add: draw_ui_def draw_action_button_def should_show_button_def)

theorem draw_ui_no_button_for_ai_witness:
  "\<not> is_game_over (sample_game [human 0 ''Ann'' 0, robot 1 0] 1 None None)
   \<and> \<not> waiting_for_effect_dice (sample_game [human 0 ''Ann'' 0, robot 1 0] 1 None None)
   \<and> is_local_player_turn (sample_game [human 0 ''Ann'' 0, robot 1 0] 1 None None) = None
   \<and> is_ai (get_current_player (sample_game [human 0 ''Ann'' 0, robot 1 0] 1 None None))
   \<and> snd (draw_ui sample_constants (ascii ''Ann'')
        (sample_game [human 0 ''Ann'' 0, robot 1 0] 1 None None)) = None"
proof -
  let ?gl = "sample_game [human 0 ''Ann'' 0, robot 1 0] 1 None None"
  have a: "\<not> is_game_over ?gl" by (simp add: sample_game_def)
  have b: "\<not> waiting_for_effect_dice ?gl" by (simp add: sample_game_def)
  have c: "is_local_player_turn ?gl = None" by (simp add: sample_game_def)
  have d: "is_ai (get_current_player ?gl)" by (simp add: sample_game_def robot_def)
  from draw_ui_no_button_for_ai [OF a b c d] a b c d show ?thesis by simp
qed

text \<open>
  C10: whenever \<open>draw_ui\<close> returns a button region, it is the rectangle with
  x = WINDOW_WIDTH - 150, y = WINDOW_HEIGHT - 60, width 120 and height 40, and the button
  drawn is this rectangle filled, its black outline and a black label at its centre: the
  variants differ in the fill colour and the label only.
\<close>

theorem draw_ui_button_rect_fixed:
  assumes "snd (draw_ui K nick gl) = Some r"
  shows "r = (WINDOW_WIDTH K - 150, WINDOW_HEIGHT K - 60, 120, 40)
    \<and> (\<exists>fill label.
          fst (draw_ui K nick gl) =
            draw_panel K nick gl
            @ [DrawRect fill r 0, DrawRect (BLACK K) r 2,
               Blit label (BLACK K) (Centered (fst (rect_center r)) (snd (rect_center r)))])"
proof -
  from assms have some: "snd (draw_action_button K gl) = Some r"
    by (simp add: draw_ui_def case_prod_unfold)
  with draw_action_button_cases [of K gl]
  obtain fill label where b: "draw_action_button K gl = draw_button K fill label"
    by auto
  with some have r: "r = button_rect K"
    by (simp add: draw_button_def)
  have "fst (draw_ui K nick gl) = draw_panel K nick gl @ fst (draw_button K fill label)"
    by (simp add: draw_ui_def b case_prod_unfold)
  then have cmds: "fst (draw_ui K nick gl) =
      draw_panel K nick gl
      @ [DrawRect fill r 0, DrawRect (BLACK K) r 2,
         Blit label (BLACK K) (Centered (fst (rect_center r)) (snd (rect_center r)))]"
    by (simp add: draw_button_def r)
  show ?thesis
  proof (intro conjI exI)
    show "r = (WINDOW_WIDTH K - 150, WINDOW_HEIGHT K - 60, 120, 40)"
      using r by (simp add: button_rect_def)
    show "fst (draw_ui K nick gl) =
      draw_panel K nick gl
      @ [DrawRect fill r 0, DrawRect (BLACK K) r 2,
         Blit label (BLACK K) (Centered (fst (rect_center r)) (snd (rect_center r)))]"
      by (rule cmds)
  qed
qed

theorem draw_ui_button_rect_fixed_witness:
  "snd (draw_ui sample_constants (ascii ''Ann'')
      ((sample_game [human 0 ''Ann'' 0, robot 1 0] 1 None None)\<lparr>is_game_over := True\<rparr>))
     = Some (650, 540, 120, 40)
   \<and> (650, 540, 120, 40) =
       (WINDOW_WIDTH sample_constants - 150, WINDOW_HEIGHT sample_constants - 60, 120, 40)"
proof -
  let ?gl = "(sample_game [human 0 ''Ann'' 0, robot 1 0] 1 None None)\<lparr>is_game_over := True\<rparr>"
  have a: "snd (draw_ui sample_constants (ascii ''Ann'') ?gl) = Some (650, 540, 120, 40)"
    by (simp add: draw_ui_def draw_action_button_def draw_button_def button_rect_def
          sample_game_def sample_constants_def case_prod_unfold)
  from draw_ui_button_rect_fixed [OF a] a show ?thesis by simp
qed

subsection \<open>The tokens of draw_players\<close>

lemma filled_circle_centers_append:
  "filled_circle_centers (xs @ ys) = filled_circle_centers xs @ filled_circle_centers ys"
  by (induction xs rule: filled_circle_centers.induct) simp_all

lemma filled_circle_centers_draw_player:
  "filled_circle_centers (draw_player K b am i p) = [token_center b am i p]"
  by (simp add: draw_player_def)

lemma centers_draw_players_from_length:
  "length (filled_circle_centers (draw_players_from K b am i ps)) = length ps"
  by (induction ps arbitrary: i)
     (simp_all add: filled_circle_centers_append filled_circle_centers_draw_player)

lemma centers_draw_players_from_nth:
  "k < length ps \<Longrightarrow>
   filled_circle_centers (draw_players_from K b am i ps) ! k
     = token_center b am (i + k) (ps ! k)"
proof (induction ps arbitrary: i k)
  case Nil
  then show ?case by simp
next
  case (Cons p ps)
  show ?case
  proof (cases k)
    case 0
    then show ?thesis
      by (simp add: filled_circle_centers_append filled_circle_centers_draw_player)
  next
    case (Suc m)
    with Cons.prems have "m < length ps" by simp
    from Cons.IH [OF this, of "Suc i"] Suc show ?thesis
      by (simp add: filled_circle_centers_append filled_circle_centers_draw_player)
  qed
qed

lemma player_pos_spec: "player_pos b am i p = spec_position b am i p"
  by (simp add: player_pos_def spec_position_def is_moving_def)

text \<open>
  C2: in \<open>draw_players\<close>, for every player list, board and animation snapshot, one token
  is drawn per player, and the token of the player of index \<open>i\<close> is centred at its
  position plus the offset of its index, where the position is the animated position of
  this frame when \<open>player_moving\<close> is true and \<open>i\<close> is the moving player id, and the static
  position of the cell the player is on otherwise (every other player while a player moves,
  and every player when none moves). The moving player id is compared with the index in
  the list, the number the animation manager is asked with.
\<close>

theorem draw_players_position_source:
  assumes "i < length ps"
  shows "length (filled_circle_centers (draw_players K ps b am)) = length ps
    \<and> filled_circle_centers (draw_players K ps b am) ! i
        = (fst (spec_position b am i (ps ! i)) + fst (player_offset i),
           snd (spec_position b am i (ps ! i)) + snd (player_offset i))"
  using centers_draw_players_from_nth [OF assms, of K b am 0]
  by (simp add: draw_players_def centers_draw_players_from_length token_center_def
        player_pos_spec)

theorem draw_players_position_source_witness:
  "(1::nat) < length [human 0 ''Ann'' 2, robot 1 2]
   \<and> filled_circle_centers
        (draw_players sample_constants [human 0 ''Ann'' 2, robot 1 2]
           (sample_board [] (sample_cell False False False None))
           (sample_animation True (Some 1))) ! 1
       = (138, 88)
   \<and> filled_circle_centers
        (draw_players sample_constants [human 0 ''Ann'' 2, robot 1 2]
           (sample_board [] (sample_cell False False False None))
           (sample_animation True (Some 1))) ! 0
       = (213, 93)"
proof -
  have a: "(1::nat) < length [human 0 ''Ann'' 2, robot 1 2]" by simp
  have b: "(0::nat) < length [human 0 ''Ann'' 2, robot 1 2]" by simp
  from draw_players_position_source [OF a, of sample_constants
      "sample_board [] (sample_cell False False False None)" "sample_animation True (Some 1)"]
    draw_players_position_source [OF b, of sample_constants
      "sample_board [] (sample_cell False False False None)" "sample_animation True (Some 1)"]
  show ?thesis
    by (simp add: spec_position_def player_offset_def sample_animation_def
          sample_board_def human_def robot_def)
qed




subsection \<open>The player lines of draw_ui\<close>

lemma draw_player_lines_length:
  "length (fst (draw_player_lines K nick gl i y ps)) = length ps"
  by (induction ps arbitrary: i y) (simp_all add: case_prod_unfold)

lemma draw_player_lines_nth:
  "k < length ps \<Longrightarrow>
   fst (draw_player_lines K nick gl i y ps) ! k =
     draw_player_line K nick gl (i + k) (ps ! k) (y + 30 * int k)"
proof (induction ps arbitrary: i y k)
  case Nil
  then show ?case by simp
next
  case (Cons p ps)
  show ?case
  proof (cases k)
    case 0
    then show ?thesis by (simp add: case_prod_unfold)
  next
    case (Suc m)
    with Cons.prems have "m < length ps" by simp
    from Cons.IH [OF this, of "Suc i" "y + 30"] Suc show ?thesis
      by (simp add: case_prod_unfold algebra_simps)
  qed
qed

lemma draw_ui_line:
  assumes "i < length (players gl)"
  shows "fst (draw_ui K nick gl) ! i =
    draw_player_line K nick gl i (players gl ! i) (10 + 30 * int i)"
proof -
  have "fst (draw_ui K nick gl) =
      fst (draw_player_lines K nick gl 0 10 (players gl))
      @ (draw_dice_and_message K gl (snd (draw_player_lines K nick gl 0 10 (players gl)))
         @ [draw_status K nick gl] @ fst (draw_action_button K gl))"
    by (simp add: draw_ui_def draw_panel_def case_prod_unfold)
  then have "fst (draw_ui K nick gl) ! i = fst (draw_player_lines K nick gl 0 10 (players gl)) ! i"
    using assms by (simp add: nth_append draw_player_lines_length)
  with draw_player_lines_nth [OF assms, of K nick gl 0 10] show ?thesis
    by simp
qed

text \<open>
  C4: in a networked session, the line of a human player shows the stored name of the
  player only when it differs from the configured nickname, and the configured nickname
  otherwise; so a remote human player whose stored name equals the local nickname is
  shown with the local nickname, like the local player.
\<close>

theorem draw_ui_human_name_shown:
  assumes "i < length (players gl)"
    and "is_local_player_turn gl \<noteq> None"
    and "\<not> is_ai (players gl ! i)"
  shows "fst (draw_ui K nick gl) ! i =
    Blit (mark_text gl i (players gl ! i)
            (s_player @ str_int (int i + 1) @ ascii ''(''
               @ spec_label_name nick (name (players gl ! i))
               @ ascii ''): '' @ str_int (money (players gl ! i)) @ s_coins))
         (if int i \<noteq> current_player gl then BLACK K else RED K)
         (TopLeft 10 (10 + 30 * int i))"
  using assms(2-3)
  by (simp add: draw_ui_line [OF assms(1)] draw_player_line_def player_text_def
        shown_name_def is_network_game_def spec_label_name_def split: option.split)

theorem draw_ui_human_name_shown_witness:
  "(1::nat) < length (players (sample_game [human 0 ''Ann'' 0, human 1 ''Ann'' 3] 0 (Some True) (Some (Some 0))))
   \<and> is_local_player_turn (sample_game [human 0 ''Ann'' 0, human 1 ''Ann'' 3] 0 (Some True) (Some (Some 0))) \<noteq> None
   \<and> \<not> is_ai (players (sample_game [human 0 ''Ann'' 0, human 1 ''Ann'' 3] 0 (Some True) (Some (Some 0))) ! 1)
   \<and> name (players (sample_game [human 0 ''Ann'' 0, human 1 ''Ann'' 3] 0 (Some True) (Some (Some 0))) ! 1)
       = Some (ascii ''Ann'')
   \<and> fst (draw_ui sample_constants (ascii ''Ann'')
        (sample_game [human 0 ''Ann'' 0, human 1 ''Ann'' 3] 0 (Some True) (Some (Some 0)))) ! 1
     = Blit (s_player @ ascii ''2(Ann): 100'' @ s_coins) (0, 0, 0) (TopLeft 10 40)
   \<and> (1::nat) < length (players (sample_game [human 0 ''Ann'' 0, human 1 ''Bob'' 3] 0 (Some True) (Some (Some 0))))
   \<and> is_local_player_turn (sample_game [human 0 ''Ann'' 0, human 1 ''Bob'' 3] 0 (Some True) (Some (Some 0))) \<noteq> None
   \<and> \<not> is_ai (players (sample_game [human 0 ''Ann'' 0, human 1 ''Bob'' 3] 0 (Some True) (Some (Some 0))) ! 1)
   \<and> fst (draw_ui sample_constants (ascii ''Ann'')
        (sample_game [human 0 ''Ann'' 0, human 1 ''Bob'' 3] 0 (Some True) (Some (Some 0)))) ! 1
     = Blit (s_player @ ascii ''2(Bob): 100'' @ s_coins) (0, 0, 0) (TopLeft 10 40)"
proof -
  let ?gl = "sample_game [human 0 ''Ann'' 0, human 1 ''Ann'' 3] 0 (Some True) (Some (Some 0))"
  let ?gl2 = "sample_game [human 0 ''Ann'' 0, human 1 ''Bob'' 3] 0 (Some True) (Some (Some 0))"
  have a: "(1::nat) < length (players ?gl)" by (simp add: sample_game_def)
  have b: "is_local_player_turn ?gl \<noteq> None" by (simp add: sample_game_def)
  have c: "\<not> is_ai (players ?gl ! 1)" by (simp add: sample_game_def human_def)
  have d: "name (players ?gl ! 1) = Some (ascii ''Ann'')" by (simp add: sample_game_def human_def)
  have a2: "(1::nat) < length (players ?gl2)" by (simp add: sample_game_def)
  have b2: "is_local_player_turn ?gl2 \<noteq> None" by (simp add: sample_game_def)
  have c2: "\<not> is_ai (players ?gl2 ! 1)" by (simp add: sample_game_def human_def)
  from draw_ui_human_name_shown [OF a b c, of sample_constants "ascii ''Ann''"]
  have e: "fst (draw_ui sample_constants (ascii ''Ann'') ?gl) ! 1
     = Blit (s_player @ ascii ''2(Ann): 100'' @ s_coins) (0, 0, 0) (TopLeft 10 40)"
    by (simp add: sample_game_def human_def sample_constants_def mark_text_def
          spec_label_name_def is_local_player_def str_int_def str_nat.simps ascii_def)
  from draw_ui_human_name_shown [OF a2 b2 c2, of sample_constants "ascii ''Ann''"]
  have e2: "fst (draw_ui sample_constants (ascii ''Ann'') ?gl2) ! 1
     = Blit (s_player @ ascii ''2(Bob): 100'' @ s_coins) (0, 0, 0) (TopLeft 10 40)"
    by (simp add: sample_game_def human_def sample_constants_def mark_text_def
          spec_label_name_def is_local_player_def str_int_def str_nat.simps ascii_def)
  from a b c d e a2 b2 c2 e2 show ?thesis by simp
qed

lemma is_local_player_networked:
  "is_local_player_turn gl = Some t \<Longrightarrow> player_slot gl = Some k \<Longrightarrow>
   is_local_player gl i p = (k = Some (int i))"
  by (simp add: is_local_player_def)

lemma is_local_player_not_networked:
  "is_local_player_turn gl = None \<or> player_slot gl = None \<Longrightarrow>
   is_local_player gl i p = (\<not> is_ai p)"
  by (auto simp add: is_local_player_def)

text \<open>
  C3: the prefix of the local player is applied to slot \<open>i\<close> exactly when, in a networked
  session, \<open>i\<close> is the local slot, and, in a session that is not networked, \<open>i\<close> is the
  first player that is not an AI. The first half is \<open>is_local_player_networked\<close>. The
  second half does not hold of the code, which marks every player that is not an AI
  (\<open>is_local_player_not_networked\<close>): with two human players in a game that is not
  networked, the first player that is not an AI is slot 0, and the line of slot 1 is
  drawn with the prefix all the same.
\<close>

theorem draw_ui_marks_second_human:
  "first_non_ai 0 (players (sample_game [human 0 ''Ann'' 0, human 1 ''Bob'' 3] 0 None None)) = Some 0
   \<and> is_local_player (sample_game [human 0 ''Ann'' 0, human 1 ''Bob'' 3] 0 None None) 1
       (players (sample_game [human 0 ''Ann'' 0, human 1 ''Bob'' 3] 0 None None) ! 1)
   \<and> fst (draw_ui sample_constants (ascii ''Ann'')
        (sample_game [human 0 ''Ann'' 0, human 1 ''Bob'' 3] 0 None None)) ! 1
     = Blit (s_you @ s_player @ ascii ''2(Ann): 100'' @ s_coins) (0, 0, 0) (TopLeft 10 40)"
proof -
  let ?gl = "sample_game [human 0 ''Ann'' 0, human 1 ''Bob'' 3] 0 None None"
  have a: "(1::nat) < length (players ?gl)" by (simp add: sample_game_def)
  from draw_ui_line [OF a, of sample_constants "ascii ''Ann''"]
  show ?thesis
    by (simp add: sample_game_def human_def sample_constants_def mark_text_def
          draw_player_line_def player_text_def shown_name_def is_network_game_def
          is_local_player_def str_int_def str_nat.simps ascii_def)
qed

subsection \<open>The fill colour of a cell\<close>

lemma subscript_indexed:
  assumes "- int (length xs) \<le> k" and "k < int (length xs)"
  shows "subscript xs (Some k) = Inr (xs ! nat (if k < 0 then int (length xs) + k else k))"
  using assms by (simp add: subscript_def)

lemma cell_color_indexed:
  assumes "is_home_cell c \<longrightarrow> owner_indexes K c"
  shows "cell_color K c = Inr (spec_fill_color K c)"
proof (cases "is_home_cell c")
  case True
  with assms obtain k where k: "owner c = Some k"
    and "- int (length (HOME_COLORS K)) \<le> k" and "k < int (length (HOME_COLORS K))"
    by (auto simp add: owner_indexes_def split: option.splits)
  then show ?thesis
    using True by (simp add: cell_color_def spec_fill_color_def subscript_indexed)
next
  case False
  then show ?thesis by (simp add: cell_color_def spec_fill_color_def)
qed

lemma cell_type_text_indexed:
  assumes "is_home_cell c \<longrightarrow> owner_indexes K c"
  shows "cell_type_text c = Inr (spec_type_label c)"
  using assms
  by (auto simp add: cell_type_text_def spec_type_label_def owner_indexes_def
        split: option.splits)

lemma draw_cell_indexed:
  assumes "is_home_cell c \<longrightarrow> owner_indexes K c"
  shows "draw_cell K i p c = (cell_render K i p c, None)"
  by (simp add: draw_cell_def cell_color_indexed [OF assms] cell_type_text_indexed [OF assms]
        cell_render_def)

lemma cell_color_defined_iff:
  "(\<exists>col. cell_color K c = Inr col) = (is_home_cell c \<longrightarrow> owner_indexes K c)"
proof
  assume "\<exists>col. cell_color K c = Inr col"
  then show "is_home_cell c \<longrightarrow> owner_indexes K c"
    by (auto simp add: cell_color_def subscript_def owner_indexes_def
          split: option.splits if_splits)
next
  assume "is_home_cell c \<longrightarrow> owner_indexes K c"
  then show "\<exists>col. cell_color K c = Inr col"
    using cell_color_indexed by blast
qed

lemma cell_color_beyond_table:
  assumes "is_home_cell c" and "owner c = Some (int (length (HOME_COLORS K)))"
  shows "cell_color K c = Inl IndexError"
  using assms by (simp add: cell_color_def subscript_def)

text \<open>
  C6, as stated, asks the fill colour to be defined for every cell. With a table of four
  home colours, a home cell whose owner is 4 has no colour: the subscript raises
  IndexError. (\<open>cell_color_beyond_table\<close>: whatever the table is, some owner is beyond it.)
\<close>

theorem cell_color_home_owner_out_of_range:
  "cell_color sample_constants (sample_cell True False False (Some 4)) = Inl IndexError"
  by (simp add: cell_color_def subscript_def sample_constants_def sample_cell_def)

text \<open>
  C6, amended: the fill colour selected in \<open>draw_board\<close> is a function of the role of the
  cell alone (its three predicates and its owner). For every cell that is not a home cell,
  or whose owner is an index of \<^verbatim>\<open>HOME_COLORS\<close>, it is defined and is the colour of
  the specification: the home colour of the owner, else the reward colour, else the
  penalty colour, else the neutral colour. A cell that matches none of the three
  predicates gets the neutral colour and no error. It is the colour the square of the
  cell is filled with, whatever the index and the position of the cell.
\<close>

theorem cell_color_total_for_indexed_owner:
  assumes "is_home_cell c \<longrightarrow> owner_indexes K c"
  shows "cell_color K c = Inr (spec_fill_color K c)
    \<and> (\<not> is_home_cell c \<and> \<not> is_reward_cell c \<and> \<not> is_penalty_cell c
         \<longrightarrow> cell_color K c = Inr (GRAY K))
    \<and> fst (draw_cell K i p c) ! 0 = DrawRect (spec_fill_color K c) (cell_rect K p) 0"
  using assms
  by (simp add: cell_color_indexed draw_cell_indexed cell_render_def)
     (simp add: spec_fill_color_def)

theorem cell_color_total_for_indexed_owner_witness:
  "is_home_cell (sample_cell True False False (Some 2))
   \<and> owner_indexes sample_constants (sample_cell True False False (Some 2))
   \<and> cell_color sample_constants (sample_cell True False False (Some 2)) = Inr (0, 255, 0)
   \<and> \<not> is_home_cell (sample_cell False False False None)
   \<and> \<not> is_reward_cell (sample_cell False False False None)
   \<and> \<not> is_penalty_cell (sample_cell False False False None)
   \<and> cell_color sample_constants (sample_cell False False False None) = Inr (128, 128, 128)"
proof -
  let ?h = "sample_cell True False False (Some 2)"
  let ?m = "sample_cell False False False None"
  have h: "is_home_cell ?h" and ho: "owner_indexes sample_constants ?h"
    by (simp_all add: owner_indexes_def sample_cell_def sample_constants_def)
  have m: "\<not> is_home_cell ?m" "\<not> is_reward_cell ?m" "\<not> is_penalty_cell ?m"
    by (simp_all add: sample_cell_def)
  have a: "is_home_cell ?h \<longrightarrow> owner_indexes sample_constants ?h"
    using ho by simp
  have b: "is_home_cell ?m \<longrightarrow> owner_indexes sample_constants ?m"
    using m by simp
  have d: "spec_fill_color sample_constants ?h = (0, 255, 0)"
    by (simp add: spec_fill_color_def sample_cell_def sample_constants_def)
  have e: "spec_fill_color sample_constants ?m = (128, 128, 128)"
    by (simp add: spec_fill_color_def sample_cell_def sample_constants_def)
  from cell_color_total_for_indexed_owner [OF a, of 0 "(0, 0)"]
    cell_color_total_for_indexed_owner [OF b, of 0 "(0, 0)"] h ho m d e
  show ?thesis by simp
qed

subsection \<open>The cell renders of draw_board\<close>

lemma draw_cells_indexed:
  assumes "\<forall>k. i \<le> k \<and> k < i + length ps
      \<longrightarrow> (is_home_cell (get_cell b k) \<longrightarrow> owner_indexes K (get_cell b k))"
  shows "draw_cells K b i ps =
    (concat (map (\<lambda>(k, p). cell_render K k p (get_cell b k)) (enumerate i ps)), None)"
  using assms
proof (induction ps arbitrary: i)
  case Nil
  then show ?case by simp
next
  case (Cons p ps)
  have here: "is_home_cell (get_cell b i) \<longrightarrow> owner_indexes K (get_cell b i)"
    using Cons.prems by simp
  have rest: "\<forall>k. Suc i \<le> k \<and> k < Suc i + length ps
      \<longrightarrow> (is_home_cell (get_cell b k) \<longrightarrow> owner_indexes K (get_cell b k))"
    using Cons.prems by simp
  show ?case
    by (simp add: draw_cell_indexed [OF here] Cons.IH [OF rest])
qed

lemma rect_center_cell_rect: "rect_center (cell_rect K p) = p"
  by (simp add: cell_rect_def)

text \<open>
  C7, as stated, asks for N cell renders on every board of N cells. A board of one cell,
  a home cell whose owner is beyond the table of home colours, gets the background and no
  cell render: the exception leaves the loop.
\<close>

theorem draw_board_stops_at_bad_home:
  "length (cell_positions (sample_board [(100, 100)] (sample_cell True False False (Some 4)))) = 1
   \<and> draw_board sample_constants
       (sample_board [(100, 100)] (sample_cell True False False (Some 4)))
     = ([Fill (255, 255, 255)], Some IndexError)"
  by (simp add: draw_board_def draw_cell_def cell_color_def subscript_def
        sample_board_def sample_cell_def sample_constants_def)

text \<open>
  C7, amended: for every board of N cell positions whose home cells have an owner that is
  an index of \<^verbatim>\<open>HOME_COLORS\<close>, \<open>draw_board\<close> clears the background and performs exactly N
  cell renders, one per cell in the order of the board, without error; the square of each
  is centred at the position the board declares for its index; for N = 0 it only clears
  the background and does not fail.
\<close>

theorem draw_board_renders_every_cell:
  assumes "\<forall>i < length (cell_positions b).
      is_home_cell (get_cell b i) \<longrightarrow> owner_indexes K (get_cell b i)"
  shows "draw_board K b =
      (Fill (WHITE K)
         # concat (map (\<lambda>(i, p). cell_render K i p (get_cell b i))
                     (enumerate 0 (cell_positions b))),
       None)
    \<and> (\<forall>i < length (cell_positions b).
          rect_center (cell_rect K (cell_positions b ! i)) = cell_positions b ! i)
    \<and> (cell_positions b = [] \<longrightarrow> draw_board K b = ([Fill (WHITE K)], None))"
proof -
  from assms have "\<forall>k. 0 \<le> k \<and> k < 0 + length (cell_positions b)
      \<longrightarrow> (is_home_cell (get_cell b k) \<longrightarrow> owner_indexes K (get_cell b k))"
    by simp
  from draw_cells_indexed [OF this] show ?thesis
    by (simp add: draw_board_def rect_center_cell_rect)
qed

theorem draw_board_renders_every_cell_witness:
  "length (cell_positions (sample_board [(100, 100), (160, 100)]
             (sample_cell True False False (Some 1)))) = 2
   \<and> is_home_cell (sample_cell True False False (Some 1))
   \<and> owner_indexes sample_constants (sample_cell True False False (Some 1))
   \<and> draw_board sample_constants
       (sample_board [(100, 100), (160, 100)] (sample_cell True False False (Some 1)))
     = ([Fill (255, 255, 255),
         DrawRect (0, 0, 255) (70, 70, 60, 60) 0,
         DrawRect (0, 0, 0) (70, 70, 60, 60) 2,
         Blit (ascii ''0'') (0, 0, 0) (Centered 100 80),
         Blit (ascii ''H2'') (0, 0, 0) (Centered 100 110),
         DrawRect (0, 0, 255) (130, 70, 60, 60) 0,
         DrawRect (0, 0, 0) (130, 70, 60, 60) 2,
         Blit (ascii ''1'') (0, 0, 0) (Centered 160 80),
         Blit (ascii ''H2'') (0, 0, 0) (Centered 160 110)],
        None)
   \<and> rect_center (70, 70, 60, 60) = (100, 100)
   \<and> rect_center (130, 70, 60, 60) = (160, 100)
   \<and> cell_positions (sample_board [] (sample_cell True False False (Some 1))) = []
   \<and> draw_board sample_constants (sample_board [] (sample_cell True False False (Some 1)))
     = ([Fill (255, 255, 255)], None)"
proof -
  let ?c = "sample_cell True False False (Some 1)"
  let ?b = "sample_board [(100, 100), (160, 100)] ?c"
  have n: "length (cell_positions ?b) = 2"
    by (simp add: sample_board_def)
  have h: "is_home_cell ?c" and ho: "owner_indexes sample_constants ?c"
    by (simp_all add: owner_indexes_def sample_cell_def sample_constants_def)
  have a: "\<forall>i < length (cell_positions ?b).
      is_home_cell (get_cell ?b i) \<longrightarrow> owner_indexes sample_constants (get_cell ?b i)"
    using ho by (simp add: sample_board_def)
  let ?e = "sample_board [] ?c"
  have z: "cell_positions ?e = []"
    by (simp add: sample_board_def)
  have a0: "\<forall>i < length (cell_positions ?e).
      is_home_cell (get_cell ?e i) \<longrightarrow> owner_indexes sample_constants (get_cell ?e i)"
    by (simp add: z)
  from draw_board_renders_every_cell [OF a0] z
  have empty: "draw_board sample_constants ?e = ([Fill (255, 255, 255)], None)"
    by (simp add: sample_constants_def)
  from draw_board_renders_every_cell [OF a]
  have full: "draw_board sample_constants ?b
     = ([Fill (255, 255, 255),
         DrawRect (0, 0, 255) (70, 70, 60, 60) 0,
         DrawRect (0, 0, 0) (70, 70, 60, 60) 2,
         Blit (ascii ''0'') (0, 0, 0) (Centered 100 80),
         Blit (ascii ''H2'') (0, 0, 0) (Centered 100 110),
         DrawRect (0, 0, 255) (130, 70, 60, 60) 0,
         DrawRect (0, 0, 0) (130, 70, 60, 60) 2,
         Blit (ascii ''1'') (0, 0, 0) (Centered 160 80),
         Blit (ascii ''H2'') (0, 0, 0) (Centered 160 110)],
        None)"
    by (simp add: sample_board_def sample_cell_def sample_constants_def cell_render_def
          spec_fill_color_def spec_type_label_def cell_rect_def str_int_def str_nat.simps
          ascii_def)
  from n h ho full z empty show ?thesis by simp
qed

subsection \<open>The frame of the drawing operations\<close>

lemma world_unchanged: "\<exists>cs. w = w\<lparr>screen := screen w @ cs\<rparr>"
  by (rule exI [of _ "[]"]) simp

lemma surface_only_return: "surface_only (State_Monad.return x)"
  by (simp add: surface_only_def world_unchanged)

lemma surface_only_draw: "surface_only (draw c)"
  unfolding surface_only_def draw_def by auto

lemma surface_only_attr: "surface_only (attr f)"
  by (simp add: surface_only_def attr_def world_unchanged)

lemma surface_only_observer: "observer m \<Longrightarrow> surface_only m"
  by (simp add: surface_only_def observer_def world_unchanged)

lemma surface_only_bind:
  assumes "surface_only m" and "\<And>x. surface_only (f x)"
  shows "surface_only (State_Monad.bind m f)"
  unfolding surface_only_def
proof
  fix w
  obtain x w1 where r: "run_state m w = (x, w1)"
    by (cases "run_state m w")
  from assms(1) obtain cs where w1: "w1 = w\<lparr>screen := screen w @ cs\<rparr>"
    unfolding surface_only_def using r by (metis snd_conv)
  from assms(2) [of x] obtain ds where
    "snd (run_state (f x) w1) = w1\<lparr>screen := screen w1 @ ds\<rparr>"
    unfolding surface_only_def by blast
  then have "snd (run_state (State_Monad.bind m f) w) = w\<lparr>screen := screen w @ (cs @ ds)\<rparr>"
    by (simp add: r w1)
  then show "\<exists>cs. snd (run_state (State_Monad.bind m f) w) = w\<lparr>screen := screen w @ cs\<rparr>"
    by blast
qed

lemma surface_only_if:
  "surface_only m \<Longrightarrow> surface_only n \<Longrightarrow> surface_only (if b then m else n)"
  by simp

lemmas surface_only_intros =
  surface_only_bind surface_only_return surface_only_draw surface_only_attr surface_only_if

lemma surface_only_cell_color_prog:
  assumes "observers M"
  shows "surface_only (cell_color_prog K M c)"
  using assms unfolding cell_color_prog_def observers_def
  by (intro surface_only_intros surface_only_observer) simp_all

lemma surface_only_cell_type_text_prog:
  assumes "observers M"
  shows "surface_only (cell_type_text_prog M c)"
  using assms unfolding cell_type_text_prog_def observers_def
  by (intro surface_only_intros surface_only_observer) simp_all

lemma surface_only_draw_cell_prog:
  assumes "observers M"
  shows "surface_only (draw_cell_prog K M i p)"
  unfolding draw_cell_prog_def
proof (intro surface_only_bind)
  show "surface_only (m_get_cell M i)"
    using assms by (simp add: observers_def surface_only_observer)
next
  fix c show "surface_only (cell_color_prog K M c)"
    by (rule surface_only_cell_color_prog [OF assms])
next
  fix c and color :: "py_error + color"
  show "surface_only
     (case color of
        Inl e \<Rightarrow> State_Monad.return (Some e)
      | Inr col \<Rightarrow> do {
          draw (DrawRect col (cell_rect K p) 0);
          draw (DrawRect (BLACK K) (cell_rect K p) 2);
          draw (Blit (str_nat i) (BLACK K) (Centered (fst p) (snd p - 20)));
          type_text \<leftarrow> cell_type_text_prog M c;
          case type_text of
            Inl e \<Rightarrow> State_Monad.return (Some e)
          | Inr t \<Rightarrow> do {
              draw (Blit t (BLACK K) (Centered (fst p) (snd p + 10)));
              State_Monad.return None
            }
        })"
  proof (cases color)
    case (Inl e)
    then show ?thesis by (simp add: surface_only_return)
  next
    case (Inr col)
    have "surface_only
       (case type_text of
          Inl e \<Rightarrow> State_Monad.return (Some e)
        | Inr t \<Rightarrow> do {
            draw (Blit t (BLACK K) (Centered (fst p) (snd p + 10)));
            State_Monad.return None
          })" for type_text :: "py_error + pystr"
      by (cases type_text) (auto intro!: surface_only_intros)
    with Inr show ?thesis
      by (auto intro!: surface_only_intros surface_only_cell_type_text_prog [OF assms])
  qed
qed

lemma surface_only_draw_cells_prog:
  assumes "observers M"
  shows "surface_only (draw_cells_prog K M i ps)"
proof (induction ps arbitrary: i)
  case Nil
  show ?case by (simp add: surface_only_return)
next
  case (Cons p ps)
  have "surface_only
     (case r of Some e \<Rightarrow> State_Monad.return (Some e) | None \<Rightarrow> draw_cells_prog K M (Suc i) ps)"
    for r :: "py_error option"
    by (cases r) (simp_all add: surface_only_return Cons.IH)
  then show ?case
    by (simp only: draw_cells_prog.simps)
       (intro surface_only_bind surface_only_draw_cell_prog [OF assms])
qed

lemma surface_only_draw_board_prog:
  assumes "observers M"
  shows "surface_only (draw_board_prog K M)"
  unfolding draw_board_prog_def
  by (intro surface_only_intros surface_only_draw_cells_prog [OF assms])

lemma surface_only_draw_player_prog:
  assumes "observers M"
  shows "surface_only (draw_player_prog K M i p)"
  using assms unfolding draw_player_prog_def observers_def Let_def
  by (intro surface_only_intros surface_only_observer) simp_all

lemma surface_only_draw_players_from_prog:
  assumes "observers M"
  shows "surface_only (draw_players_from_prog K M i ps)"
proof (induction ps arbitrary: i)
  case Nil
  show ?case by (simp add: surface_only_return)
next
  case (Cons p ps)
  show ?case
    by (simp only: draw_players_from_prog.simps)
       (intro surface_only_bind surface_only_draw_player_prog [OF assms] Cons.IH)
qed

lemma surface_only_draw_players_prog:
  assumes "observers M"
  shows "surface_only (draw_players_prog K M)"
  unfolding draw_players_prog_def
  by (intro surface_only_intros surface_only_draw_players_from_prog [OF assms])

lemma surface_only_shown_name_prog:
  assumes "observers M"
  shows "surface_only (shown_name_prog M network p)"
proof -
  have nick: "surface_only (m_get_nickname M)"
    using assms by (simp add: observers_def surface_only_observer)
  show ?thesis
    unfolding shown_name_prog_def
    by (cases "name p") (auto intro!: surface_only_intros nick)
qed

lemma surface_only_draw_player_line_prog:
  assumes "observers M"
  shows "surface_only (draw_player_line_prog K M i p y)"
proof -
  have "surface_only (m_get_player_type_name M p)"
    using assms by (simp add: observers_def surface_only_observer)
  then show ?thesis
    unfolding draw_player_line_prog_def
    by (intro surface_only_intros surface_only_shown_name_prog [OF assms])
qed

lemma surface_only_draw_player_lines_prog:
  assumes "observers M"
  shows "surface_only (draw_player_lines_prog K M i y ps)"
proof (induction ps arbitrary: i y)
  case Nil
  show ?case by (simp add: surface_only_return)
next
  case (Cons p ps)
  show ?case
    by (simp only: draw_player_lines_prog.simps)
       (intro surface_only_bind surface_only_draw_player_line_prog [OF assms] Cons.IH)
qed

lemma surface_only_draw_dice_and_message_prog:
  "surface_only (draw_dice_and_message_prog K y)"
  unfolding draw_dice_and_message_prog_def
  by (intro surface_only_intros)

lemma surface_only_current_player_name_prog:
  assumes "observers M"
  shows "surface_only (current_player_name_prog M cp)"
proof -
  have "surface_only (m_get_player_type_name M cp)"
    using assms by (simp add: observers_def surface_only_observer)
  then show ?thesis
    unfolding current_player_name_prog_def
    by (intro surface_only_intros surface_only_shown_name_prog [OF assms])
qed

lemma surface_only_draw_status_prog: "surface_only (draw_status_prog K t)"
  unfolding draw_status_prog_def
  by (intro surface_only_intros)

lemma surface_only_draw_button_prog: "surface_only (draw_button_prog K fill label)"
  unfolding draw_button_prog_def
  by (intro surface_only_intros)

lemma surface_only_draw_action_button_prog:
  assumes "observers M"
  shows "surface_only (draw_action_button_prog K M cp)"
proof -
  have "surface_only (m_is_local_player_turn M)" and "surface_only (m_is_game_over M)"
    using assms by (simp_all add: observers_def surface_only_observer)
  then show ?thesis
    unfolding draw_action_button_prog_def
    by (intro surface_only_intros surface_only_draw_button_prog)
qed

lemma surface_only_draw_ui_prog:
  assumes "observers M"
  shows "surface_only (draw_ui_prog K M)"
proof -
  have "surface_only (m_get_current_player M)"
    using assms by (simp add: observers_def surface_only_observer)
  then show ?thesis
    unfolding draw_ui_prog_def
    by (intro surface_only_intros surface_only_draw_player_lines_prog [OF assms]
          surface_only_draw_dice_and_message_prog
          surface_only_current_player_name_prog [OF assms] surface_only_draw_status_prog
          surface_only_draw_action_button_prog [OF assms])
qed

lemma run_state_attr: "run_state (attr f) w = (f w, w)"
  by (simp add: attr_def)

lemma run_state_draw: "run_state (draw c) w = ((), w\<lparr>screen := screen w @ [c]\<rparr>)"
  by (simp add: draw_def)

lemma observers_field_methods: "observers (field_methods nick)"
  by (simp add: observers_def observer_def field_methods_def run_state_attr)

lemma run_cell_color_prog:
  "run_state (cell_color_prog K (field_methods nick) c) w = (cell_color K c, w)"
  by (simp add: cell_color_prog_def cell_color_def field_methods_def)

lemma run_cell_type_text_prog:
  "run_state (cell_type_text_prog (field_methods nick) c) w = (cell_type_text c, w)"
  by (simp add: cell_type_text_prog_def cell_type_text_def field_methods_def)

lemma run_draw_cell_prog:
  "run_state (draw_cell_prog K (field_methods nick) i p) w =
     (snd (draw_cell K i p (get_cell (the_board w) i)),
      w\<lparr>screen := screen w @ fst (draw_cell K i p (get_cell (the_board w) i))\<rparr>)"
proof -
  have g: "m_get_cell (field_methods nick) i = attr (\<lambda>w. get_cell (the_board w) i)"
    by (simp add: field_methods_def)
  show ?thesis
    by (simp add: draw_cell_prog_def draw_cell_def g run_state_attr run_state_draw
          run_cell_color_prog run_cell_type_text_prog split: sum.split)
qed

lemma run_draw_cells_prog:
  "run_state (draw_cells_prog K (field_methods nick) i ps) w =
     (snd (draw_cells K (the_board w) i ps),
      w\<lparr>screen := screen w @ fst (draw_cells K (the_board w) i ps)\<rparr>)"
proof (induction ps arbitrary: i w)
  case Nil
  show ?case by simp
next
  case (Cons p ps)
  show ?case
    by (simp add: run_draw_cell_prog Cons.IH case_prod_unfold split: option.split)
qed

lemma run_draw_board_prog:
  "run_state (draw_board_prog K (field_methods nick)) w =
     (snd (draw_board K (the_board w)),
      w\<lparr>screen := screen w @ fst (draw_board K (the_board w))\<rparr>)"
  by (simp add: draw_board_prog_def draw_board_def run_state_attr run_state_draw
        run_draw_cells_prog case_prod_unfold)

lemma run_draw_player_prog:
  "run_state (draw_player_prog K (field_methods nick) i p) w =
     ((), w\<lparr>screen := screen w @ draw_player K (the_board w) (the_animation w) i p\<rparr>)"
  by (simp add: draw_player_prog_def draw_player_def token_center_def player_pos_def
        field_methods_def run_state_attr run_state_draw Let_def)

lemma run_draw_players_from_prog:
  "run_state (draw_players_from_prog K (field_methods nick) i ps) w =
     ((), w\<lparr>screen := screen w @ draw_players_from K (the_board w) (the_animation w) i ps\<rparr>)"
proof (induction ps arbitrary: i w)
  case Nil
  show ?case by simp
next
  case (Cons p ps)
  show ?case
    by (simp add: run_draw_player_prog Cons.IH)
qed

lemma run_draw_players_prog:
  "run_state (draw_players_prog K (field_methods nick)) w =
     ((), w\<lparr>screen := screen w
              @ draw_players K (the_players w) (the_board w) (the_animation w)\<rparr>)"
  by (simp add: draw_players_prog_def draw_players_def run_state_attr
        run_draw_players_from_prog)

lemma run_shown_name_prog:
  "run_state (shown_name_prog (field_methods nick) (is_network_game gl) p) w
     = (shown_name nick gl p, w)"
  by (simp add: shown_name_prog_def shown_name_def field_methods_def split: option.split)

lemma run_draw_player_line_prog:
  "run_state (draw_player_line_prog K (field_methods nick) i p y) w =
     ((), w\<lparr>screen := screen w @ [draw_player_line K nick (the_game_logic w) i p y]\<rparr>)"
proof -
  have t: "m_get_player_type_name (field_methods nick) p = State_Monad.return (player_type_name p)"
    by (simp add: field_methods_def)
  show ?thesis
    by (simp add: draw_player_line_prog_def draw_player_line_def player_text_def t
          run_state_attr run_state_draw run_shown_name_prog)
qed

lemma run_draw_player_lines_prog:
  "run_state (draw_player_lines_prog K (field_methods nick) i y ps) w =
     (snd (draw_player_lines K nick (the_game_logic w) i y ps),
      w\<lparr>screen := screen w @ fst (draw_player_lines K nick (the_game_logic w) i y ps)\<rparr>)"
proof (induction ps arbitrary: i y w)
  case Nil
  show ?case by simp
next
  case (Cons p ps)
  show ?case
    by (simp add: run_draw_player_line_prog Cons.IH case_prod_unfold)
qed

lemma run_draw_dice_and_message_prog:
  "run_state (draw_dice_and_message_prog K y) w =
     ((), w\<lparr>screen := screen w @ draw_dice_and_message K (the_game_logic w) y\<rparr>)"
  by (simp add: draw_dice_and_message_prog_def draw_dice_and_message_def
        run_state_attr run_state_draw)

lemma run_current_player_name_prog:
  assumes "the_game_logic w = gl"
  shows "run_state (current_player_name_prog (field_methods nick) (get_current_player gl)) w
     = (current_player_name nick gl, w)"
proof -
  have t: "m_get_player_type_name (field_methods nick) p = State_Monad.return (player_type_name p)"
    for p by (simp add: field_methods_def)
  show ?thesis
    using assms
    by (auto simp add: current_player_name_prog_def current_player_name_def t
          run_state_attr run_shown_name_prog Let_def)
qed

lemma run_draw_status_prog:
  assumes "the_game_logic w = gl"
  shows "run_state (draw_status_prog K (current_player_name nick gl)) w =
     ((), w\<lparr>screen := screen w @ [draw_status K nick gl]\<rparr>)"
  using assms
  by (auto simp add: draw_status_prog_def draw_status_def run_state_attr run_state_draw)

lemma run_draw_button_prog:
  "run_state (draw_button_prog K fill label) w =
     (snd (draw_button K fill label),
      w\<lparr>screen := screen w @ fst (draw_button K fill label)\<rparr>)"
  by (simp add: draw_button_prog_def draw_button_def run_state_draw)

lemma run_draw_action_button_prog:
  assumes "the_game_logic w = gl"
  shows "run_state (draw_action_button_prog K (field_methods nick) (get_current_player gl)) w =
     (snd (draw_action_button K gl),
      w\<lparr>screen := screen w @ fst (draw_action_button K gl)\<rparr>)"
proof -
  have m: "m_is_local_player_turn (field_methods nick) =
      attr (\<lambda>w. case is_local_player_turn (the_game_logic w) of
                   Some local_turn \<Rightarrow> local_turn | None \<Rightarrow> False)"
    "m_is_game_over (field_methods nick) = attr (\<lambda>w. is_game_over (the_game_logic w))"
    by (simp_all add: field_methods_def)
  show ?thesis
    using assms
    by (cases "is_local_player_turn gl")
       (auto simp add: draw_action_button_prog_def draw_action_button_def
          should_show_button_def m run_state_attr run_draw_button_prog)
qed

lemma run_draw_ui_prog:
  "run_state (draw_ui_prog K (field_methods nick)) w =
     (snd (draw_ui K nick (the_game_logic w)),
      w\<lparr>screen := screen w @ fst (draw_ui K nick (the_game_logic w))\<rparr>)"
proof -
  have m: "m_get_current_player (field_methods nick) =
      attr (\<lambda>w. get_current_player (the_game_logic w))"
    by (simp add: field_methods_def)
  show ?thesis
    by (simp add: draw_ui_prog_def draw_ui_def draw_panel_def m run_state_attr
          run_draw_player_lines_prog run_draw_dice_and_message_prog
          run_current_player_name_prog run_draw_status_prog run_draw_action_button_prog
          case_prod_unfold)
qed

text \<open>
  With the methods that return the fields of the snapshots, the three programs draw what
  the functions \<open>draw_board\<close>, \<open>draw_players\<close> and \<open>draw_ui\<close> above draw, and return what
  they return (\<open>run_draw_board_prog\<close>, \<open>run_draw_players_prog\<close>, \<open>run_draw_ui_prog\<close>).
\<close>

text \<open>
  C9: no drawing operation changes its input snapshots. Whenever the methods the module
  calls on its arguments change nothing, the state after \<open>draw_board\<close>, \<open>draw_players\<close>
  or \<open>draw_ui\<close> (also after a \<open>draw_board\<close> that raises) is the state before the call but
  for the surface: the board, the player list, the animation snapshot and the game logic
  are what they were, and the surface has what it had and, after it, the drawing calls of
  the method.
\<close>

theorem draw_calls_change_surface_only:
  assumes "observers M"
  shows "(\<exists>cs. snd (run_state (draw_board_prog K M) w) = w\<lparr>screen := screen w @ cs\<rparr>)
    \<and> (\<exists>cs. snd (run_state (draw_players_prog K M) w) = w\<lparr>screen := screen w @ cs\<rparr>)
    \<and> (\<exists>cs. snd (run_state (draw_ui_prog K M) w) = w\<lparr>screen := screen w @ cs\<rparr>)"
  using surface_only_draw_board_prog [OF assms, of K]
    surface_only_draw_players_prog [OF assms, of K]
    surface_only_draw_ui_prog [OF assms, of K]
  unfolding surface_only_def by blast

theorem draw_calls_change_surface_only_witness:
  "observers (field_methods (ascii ''Ann''))
   \<and> the_board (snd (run_state
        (draw_board_prog sample_constants (field_methods (ascii ''Ann''))) sample_world))
     = the_board sample_world
   \<and> the_players (snd (run_state
        (draw_players_prog sample_constants (field_methods (ascii ''Ann''))) sample_world))
     = the_players sample_world
   \<and> the_animation (snd (run_state
        (draw_players_prog sample_constants (field_methods (ascii ''Ann''))) sample_world))
     = the_animation sample_world
   \<and> the_game_logic (snd (run_state
        (draw_ui_prog sample_constants (field_methods (ascii ''Ann''))) sample_world))
     = the_game_logic sample_world
   \<and> screen (snd (run_state
        (draw_players_prog sample_constants (field_methods (ascii ''Ann''))) sample_world))
     = [DrawCircle (255, 0, 0) (93, 93) 8 0, DrawCircle (0, 0, 0) (93, 93) 8 2,
        DrawCircle (255, 215, 0) (138, 88) 12 2,
        DrawCircle (0, 0, 255) (138, 88) 8 0, DrawCircle (0, 0, 0) (138, 88) 8 2]"
proof -
  let ?M = "field_methods (ascii ''Ann'')"
  have obs: "observers ?M" by (rule observers_field_methods)
  from draw_calls_change_surface_only [OF obs, of sample_constants sample_world]
  obtain cs ds es where
    b: "snd (run_state (draw_board_prog sample_constants ?M) sample_world)
          = sample_world\<lparr>screen := screen sample_world @ cs\<rparr>" and
    p: "snd (run_state (draw_players_prog sample_constants ?M) sample_world)
          = sample_world\<lparr>screen := screen sample_world @ ds\<rparr>" and
    u: "snd (run_state (draw_ui_prog sample_constants ?M) sample_world)
          = sample_world\<lparr>screen := screen sample_world @ es\<rparr>"
    by blast
  have drawn: "screen (snd (run_state (draw_players_prog sample_constants ?M) sample_world))
     = [DrawCircle (255, 0, 0) (93, 93) 8 0, DrawCircle (0, 0, 0) (93, 93) 8 2,
        DrawCircle (255, 215, 0) (138, 88) 12 2,
        DrawCircle (0, 0, 255) (138, 88) 8 0, DrawCircle (0, 0, 0) (138, 88) 8 2]"
    by (simp add: run_draw_players_prog draw_players_def draw_player_def token_center_def
          player_pos_def is_moving_def player_offset_def sample_world_def sample_board_def
          sample_animation_def sample_constants_def human_def robot_def)
  from obs b p u drawn show ?thesis by simp
qed

text \<open>
  The two hypotheses are needed. A program that assigns to a snapshot is not one that
  changes the surface only; and with a method that assigns, \<open>draw_players\<close>, which calls
  it, leaves another player list than it found.
\<close>

lemma assignment_is_not_surface_only:
  "\<not> surface_only (State (\<lambda>w. ((), w\<lparr>the_players := robot 0 0 # the_players w\<rparr>)))"
proof
  assume "surface_only (State (\<lambda>w. ((), w\<lparr>the_players := robot 0 0 # the_players w\<rparr>)))"
  then have "\<exists>cs. snd (run_state
        (State (\<lambda>w. ((), w\<lparr>the_players := robot 0 0 # the_players w\<rparr>))) sample_world)
      = sample_world\<lparr>screen := screen sample_world @ cs\<rparr>"
    unfolding surface_only_def by blast
  then obtain cs where
    "sample_world\<lparr>the_players := robot 0 0 # the_players sample_world\<rparr>
       = sample_world\<lparr>screen := screen sample_world @ cs\<rparr>"
    by auto
  then have "the_players (sample_world\<lparr>the_players := robot 0 0 # the_players sample_world\<rparr>)
       = the_players (sample_world\<lparr>screen := screen sample_world @ cs\<rparr>)"
    by simp
  then show False by simp
qed

lemma draw_players_with_assigning_method:
  "the_players sample_world = [human 0 ''Ann'' 0, robot 1 0]
   \<and> the_players (snd (run_state (draw_players_prog sample_constants assigning_methods)
        sample_world)) = []"
  by (simp add: draw_players_prog_def draw_player_prog_def assigning_methods_def
        field_methods_def attr_def draw_def is_moving_def Let_def sample_world_def
        sample_animation_def human_def robot_def)

end
